theory Spec2Isabelle
  imports Complex_Main "HOL-Library.Word" "HOL-Library.Product_Lexorder"
begin

unbundle bit_operations_syntax

section \<open>Python values used by the solver backend\<close>

text \<open>
  The backend is Python: integers are unbounded (\<open>int\<close>), tile indices and list positions
  are natural numbers, a raised exception is the left summand of a sum type.
\<close>

datatype py_error = KeyError | ValueError | IndexError

text \<open>
  A Python \<open>dict\<close> is kept as the list of its assignments in the order they were made;
  a lookup finds the most recent assignment of the key.
\<close>

type_synonym ('k, 'v) dict = "('k \<times> 'v) list"

definition dict_get :: "('k, 'v) dict \<Rightarrow> 'k \<Rightarrow> 'v option" where
  "dict_get d k = map_of (rev d) k"

definition dict_index :: "('k, 'v) dict \<Rightarrow> 'k \<Rightarrow> py_error + 'v" where
  "dict_index d k = (case dict_get d k of None \<Rightarrow> Inl KeyError | Some v \<Rightarrow> Inr v)"

fun sequence_err :: "(py_error + 'a) list \<Rightarrow> py_error + 'a list" where
  "sequence_err [] = Inr []"
| "sequence_err (Inl e # _) = Inl e"
| "sequence_err (Inr v # rest) =
     (case sequence_err rest of Inl e \<Rightarrow> Inl e | Inr vs \<Rightarrow> Inr (v # vs))"

section \<open>Hexagon topology: \<open>get_hexagon_board_details\<close>\<close>

text \<open>
  The source collects the axial coordinates in a Python \<open>set\<close>. The model keeps the
  elements in insertion order; they are pairwise distinct.
\<close>

definition axial_coords :: "int \<Rightarrow> (int \<times> int) list" where
  "axial_coords radius =
     concat (map (\<lambda>q. map (\<lambda>r. (q, r))
                    [max (- radius) (- q - radius) .. min radius (- q + radius)])
             [- radius .. radius])"

text \<open>\<open>col, row = q, r + (q - (q & 1)) // 2; return (row, col)\<close>\<close>

definition axial_to_offset :: "int \<Rightarrow> int \<Rightarrow> int \<times> int" where
  "axial_to_offset q r = (r + (q - (q AND 1)) div 2, q)"

definition axial_directions :: "(int \<times> int) list" where
  "axial_directions = [(1, 0), (1, -1), (0, -1), (-1, 0), (-1, 1), (0, 1)]"

definition offset_coords_unnormalized :: "int \<Rightarrow> (int \<times> int) list" where
  "offset_coords_unnormalized radius =
     remdups (map (\<lambda>(q, r). axial_to_offset q r) (axial_coords radius))"

definition min_r :: "int \<Rightarrow> int" where
  "min_r radius = Min (set (map fst (offset_coords_unnormalized radius)))"

definition min_c :: "int \<Rightarrow> int" where
  "min_c radius = Min (set (map snd (offset_coords_unnormalized radius)))"

definition valid_cells :: "int \<Rightarrow> (int \<times> int) list" where
  "valid_cells radius =
     remdups (map (\<lambda>(r, c). (r - min_r radius, c - min_c radius))
                  (offset_coords_unnormalized radius))"

definition norm_offset :: "int \<Rightarrow> int \<times> int \<Rightarrow> int \<times> int" where
  "norm_offset radius qr =
     (fst (axial_to_offset (fst qr) (snd qr)) - min_r radius,
      snd (axial_to_offset (fst qr) (snd qr)) - min_c radius)"

definition offset_to_axial_map :: "int \<Rightarrow> (int \<times> int, int \<times> int) dict" where
  "offset_to_axial_map radius = map (\<lambda>qr. (norm_offset radius qr, qr)) (axial_coords radius)"

definition axial_to_offset_map :: "int \<Rightarrow> (int \<times> int, int \<times> int) dict" where
  "axial_to_offset_map radius = map (\<lambda>qr. (qr, norm_offset radius qr)) (axial_coords radius)"

text \<open>
  One iteration of the loop over \<open>valid_cells\<close>: the entry of a cell starts as the cell
  itself and receives the offset of every axial neighbour that is a key of
  \<open>axial_to_offset_map\<close>, in the order of \<open>axial_directions\<close>.
\<close>

definition cell_adjacency ::
  "int \<Rightarrow> int \<times> int \<Rightarrow> py_error + ((int \<times> int) \<times> (int \<times> int) list)" where
  "cell_adjacency radius cell_offset =
     (case dict_index (offset_to_axial_map radius) cell_offset of
        Inl e \<Rightarrow> Inl e
      | Inr start_axial \<Rightarrow>
          Inr (cell_offset,
               cell_offset #
               List.map_filter
                 (\<lambda>(dq, dr). dict_get (axial_to_offset_map radius)
                                (fst start_axial + dq, snd start_axial + dr))
                 axial_directions))"

definition adjacency_map_by_coord ::
  "int \<Rightarrow> py_error + (int \<times> int, (int \<times> int) list) dict" where
  "adjacency_map_by_coord radius = sequence_err (map (cell_adjacency radius) (valid_cells radius))"

text \<open>\<open>sorted(list(valid_cells), key=lambda item: (item[1], item[0]))\<close>\<close>

definition sorted_coords :: "int \<Rightarrow> (int \<times> int) list" where
  "sorted_coords radius = sort_key (\<lambda>item. (snd item, fst item)) (valid_cells radius)"

definition coord_to_index :: "int \<Rightarrow> (int \<times> int, nat) dict" where
  "coord_to_index radius = zip (sorted_coords radius) [0 ..< length (sorted_coords radius)]"

definition adj_entry ::
  "int \<Rightarrow> (int \<times> int) \<times> (int \<times> int) list \<Rightarrow> py_error + (nat \<times> nat list)" where
  "adj_entry radius e =
     (case dict_index (coord_to_index radius) (fst e) of
        Inl err \<Rightarrow> Inl err
      | Inr k \<Rightarrow>
          (case sequence_err (map (dict_index (coord_to_index radius)) (snd e)) of
             Inl err \<Rightarrow> Inl err
           | Inr ns \<Rightarrow> Inr (k, sort ns)))"

definition get_hexagon_board_details :: "int \<Rightarrow> py_error + (nat, nat list) dict" where
  "get_hexagon_board_details radius =
     (if offset_coords_unnormalized radius = [] then Inr []
      else case adjacency_map_by_coord radius of
             Inl e \<Rightarrow> Inl e
           | Inr by_coord \<Rightarrow> sequence_err (map (adj_entry radius) by_coord))"

section \<open>Modular linear solver: \<open>gaussian_elimination_mod\<close>\<close>

text \<open>
  A two-dimensional numpy array is the list of its rows. The entries are \<open>int64\<close> in the
  source; the model uses unbounded integers, which agree with them as long as no product
  leaves the 64-bit range (entries and modulus of the puzzles are below 6).
\<close>

type_synonym matrix = "int list list"

text \<open>\<open>while pivot_row < n and Ab[pivot_row, i] == 0: pivot_row += 1\<close>\<close>

function pivot_scan :: "matrix \<Rightarrow> nat \<Rightarrow> nat \<Rightarrow> nat \<Rightarrow> nat" where
  "pivot_scan Ab n i pivot_row =
     (if pivot_row < n \<and> Ab ! pivot_row ! i = 0 then pivot_scan Ab n i (pivot_row + 1)
      else pivot_row)"
  by pat_completeness auto
termination
  by (relation "measure (\<lambda>(Ab, n, i, pivot_row). n - pivot_row)") auto

declare pivot_scan.simps [simp del]

text \<open>
  \<open>pow(a, -1, m)\<close> for a modulus \<open>m \<ge> 1\<close>: the inverse of \<open>a\<close> in \<open>[0, m)\<close>, or
  \<open>ValueError\<close> (here \<open>None\<close>) when there is none.
\<close>

definition mod_inverse :: "int \<Rightarrow> int \<Rightarrow> int option" where
  "mod_inverse a m = List.find (\<lambda>x. (a * x) mod m = 1 mod m) [0 .. m - 1]"

text \<open>\<open>if i != j: Ab[j] = (Ab[j] - Ab[j, i] * Ab[i]) % m\<close>\<close>

definition eliminate_row :: "int \<Rightarrow> nat \<Rightarrow> matrix \<Rightarrow> nat \<Rightarrow> matrix" where
  "eliminate_row m i Ab j =
     (if i \<noteq> j
      then Ab[j := map2 (\<lambda>a p. (a - (Ab ! j ! i) * p) mod m) (Ab ! j) (Ab ! i)]
      else Ab)"

text \<open>
  The body of the loop over the pivot columns. \<open>None\<close> is the \<open>return None\<close> of the
  \<open>except ValueError\<close> branch.
\<close>

definition pivot_column :: "int \<Rightarrow> nat \<Rightarrow> matrix \<Rightarrow> nat \<Rightarrow> matrix option" where
  "pivot_column m n Ab i =
     (let pivot_row = pivot_scan Ab n i i in
      if pivot_row = n then Some Ab
      else
        let Ab1 = Ab[i := Ab ! pivot_row, pivot_row := Ab ! i] in
        case mod_inverse (Ab1 ! i ! i) m of
          None \<Rightarrow> None
        | Some inv_m \<Rightarrow>
            let Ab2 = Ab1[i := map (\<lambda>v. (v * inv_m) mod m) (Ab1 ! i)] in
            Some (fold (\<lambda>j M. eliminate_row m i M j) [0 ..< n] Ab2))"

fun elimination :: "int \<Rightarrow> nat \<Rightarrow> nat list \<Rightarrow> matrix \<Rightarrow> matrix option" where
  "elimination m n [] Ab = Some Ab"
| "elimination m n (i # cols) Ab =
     (case pivot_column m n Ab i of
        None \<Rightarrow> None
      | Some Ab' \<Rightarrow> elimination m n cols Ab')"

text \<open>\<open>np.any(np.all(Ab[:, :-1] == 0, axis=1) & (Ab[:, -1] != 0))\<close>\<close>

definition inconsistent :: "matrix \<Rightarrow> bool" where
  "inconsistent Ab = list_ex (\<lambda>row. list_all (\<lambda>v. v = 0) (butlast row) \<and> last row \<noteq> 0) Ab"

definition back_step :: "int \<Rightarrow> matrix \<Rightarrow> int list \<Rightarrow> nat \<Rightarrow> int list" where
  "back_step m Ab x i =
     (if Ab ! i ! i = 1
      then x[i := (last (Ab ! i)
                   - sum_list (map2 (*) (drop (i + 1) (butlast (Ab ! i))) (drop (i + 1) x)))
                  mod m]
      else x[i := 0])"

definition back_substitution :: "int \<Rightarrow> nat \<Rightarrow> matrix \<Rightarrow> int list" where
  "back_substitution m n Ab = fold (\<lambda>i x. back_step m Ab x i) (rev [0 ..< n]) (replicate n 0)"

text \<open>
  \<open>A\<close> is an \<open>n \<times> n\<close> array. \<open>np.hstack\<close> raises \<open>ValueError\<close> when \<open>b\<close> does not have
  \<open>n\<close> entries. The result is \<open>Inl\<close> for a raised exception, \<open>Inr None\<close> for
  \<open>return None\<close> and \<open>Inr (Some x)\<close> for \<open>return x\<close>.
\<close>

definition augment :: "matrix \<Rightarrow> int list \<Rightarrow> matrix" where
  "augment A b = map2 (\<lambda>row v. row @ [v]) A b"

definition gaussian_elimination_mod ::
  "matrix \<Rightarrow> int list \<Rightarrow> int \<Rightarrow> py_error + int list option" where
  "gaussian_elimination_mod A b m =
     (let n = length A in
      if length b \<noteq> n then Inl ValueError
      else
        case elimination m n [0 ..< n] (augment A b) of
          None \<Rightarrow> Inr None
        | Some Ab \<Rightarrow>
            if inconsistent Ab then Inr None
            else Inr (Some (back_substitution m n Ab)))"

section \<open>The facade: \<open>solve\<close>\<close>

datatype layout = Grid | Hexagon

datatype board = Flat "int list" | Nested "int list list"

datatype click_id = TileClick nat | GridClick nat nat

record solution_step =
  click :: click_id
  affected_tiles :: "nat list"
  board_state :: "int list"

text \<open>
  \<open>(size_rc, n, modulus, layout)\<close> of a difficulty; \<open>size_rc\<close> is not bound for the
  hexagon and never read there (\<open>0\<close> in the model).
\<close>

definition difficulty_config :: "string \<Rightarrow> (nat \<times> nat \<times> int \<times> layout) option" where
  "difficulty_config difficulty =
     (if difficulty = ''easy'' then Some (3, 3 * 3, 4, Grid)
      else if difficulty = ''medium'' then Some (4, 4 * 4, 4, Grid)
      else if difficulty = ''hard'' \<or> difficulty = ''expert''
      then Some (0, 37, if difficulty = ''hard'' then 2 else 6, Hexagon)
      else None)"

definition grid_adj_map :: "nat \<Rightarrow> nat \<Rightarrow> (nat, nat list) dict" where
  "grid_adj_map size_rc n =
     map (\<lambda>k. (k, filter (\<lambda>i. \<bar>int (i div size_rc) - int (k div size_rc)\<bar> \<le> 1
                           \<and> \<bar>int (i mod size_rc) - int (k mod size_rc)\<bar> \<le> 1)
                       [0 ..< n]))
         [0 ..< n]"

definition adj_map_of :: "layout \<Rightarrow> nat \<Rightarrow> nat \<Rightarrow> py_error + (nat, nat list) dict" where
  "adj_map_of lay size_rc n =
     (case lay of Grid \<Rightarrow> Inr (grid_adj_map size_rc n)
                | Hexagon \<Rightarrow> get_hexagon_board_details 3)"

text \<open>\<open>A[tile_idx, button_idx] = 1\<close>, which raises \<open>IndexError\<close> outside the array.\<close>

definition set_effect :: "nat \<Rightarrow> nat \<Rightarrow> nat \<Rightarrow> py_error + matrix \<Rightarrow> py_error + matrix" where
  "set_effect n button_idx tile_idx A =
     (case A of
        Inl e \<Rightarrow> Inl e
      | Inr M \<Rightarrow>
          if tile_idx < n \<and> button_idx < n
          then Inr (M[tile_idx := (M ! tile_idx)[button_idx := 1]])
          else Inl IndexError)"

definition effects_matrix :: "nat \<Rightarrow> (nat, nat list) dict \<Rightarrow> py_error + matrix" where
  "effects_matrix n adj_map =
     fold (\<lambda>(button_idx, affected_list) A. fold (set_effect n button_idx) affected_list A)
          adj_map (Inr (replicate n (replicate n 0)))"

text \<open>
  \<open>np.array(initial_board).flatten()\<close>: a nested board must be rectangular, otherwise
  numpy raises.
\<close>

definition np_flatten :: "board \<Rightarrow> py_error + int list" where
  "np_flatten bd =
     (case bd of
        Flat xs \<Rightarrow> Inr xs
      | Nested rows \<Rightarrow>
          if list_all (\<lambda>row. length row = length (hd rows)) rows then Inr (concat rows)
          else Inl ValueError)"

text \<open>The inner loop \<open>for k in range(6)\<close> with its \<open>break\<close>; \<open>x[i]\<close> stays \<open>0\<close> without a hit.\<close>

definition crt_digit :: "int \<Rightarrow> int \<Rightarrow> int" where
  "crt_digit r2 r3 =
     (case List.find (\<lambda>k. k mod 2 = r2 \<and> k mod 3 = r3) [0 .. 5] of
        None \<Rightarrow> 0 | Some k \<Rightarrow> k)"

definition crt_combine :: "nat \<Rightarrow> int list \<Rightarrow> int list \<Rightarrow> int list" where
  "crt_combine n x_mod2 x_mod3 = map (\<lambda>i. crt_digit (x_mod2 ! i) (x_mod3 ! i)) [0 ..< n]"

text \<open>Lines 183 to 196: the press-count vector \<open>x\<close>, or \<open>None\<close>.\<close>

definition press_counts ::
  "string \<Rightarrow> nat \<Rightarrow> int \<Rightarrow> matrix \<Rightarrow> int list \<Rightarrow> py_error + int list option" where
  "press_counts difficulty n modulus A b =
     (if difficulty = ''expert''
      then
        case gaussian_elimination_mod A (map (\<lambda>v. v mod 2) b) 2 of
          Inl e \<Rightarrow> Inl e
        | Inr x_mod2 \<Rightarrow>
            (case gaussian_elimination_mod A (map (\<lambda>v. v mod 3) b) 3 of
               Inl e \<Rightarrow> Inl e
             | Inr x_mod3 \<Rightarrow>
                 (case (x_mod2, x_mod3) of
                    (Some x2, Some x3) \<Rightarrow> Inr (Some (crt_combine n x2 x3))
                  | _ \<Rightarrow> Inr None))
      else gaussian_elimination_mod A b modulus)"

definition click_of :: "layout \<Rightarrow> nat \<Rightarrow> nat \<Rightarrow> click_id" where
  "click_of lay size_rc i =
     (case lay of Grid \<Rightarrow> GridClick (i div size_rc) (i mod size_rc) | Hexagon \<Rightarrow> TileClick i)"

definition click_path :: "layout \<Rightarrow> nat \<Rightarrow> int list \<Rightarrow> click_id list" where
  "click_path lay size_rc x =
     concat (map (\<lambda>(i, count). if count > 0 then replicate (nat count) (click_of lay size_rc i)
                                else [])
                 (zip [0 ..< length x] x))"

definition click_index :: "nat \<Rightarrow> click_id \<Rightarrow> nat" where
  "click_index size_rc c =
     (case c of TileClick i \<Rightarrow> i | GridClick row col \<Rightarrow> row * size_rc + col)"

text \<open>
  \<open>current_board[tile_idx] = ((current_board[tile_idx] - 1 + 1) % modulus) + 1\<close>,
  which raises \<open>IndexError\<close> outside the list.
\<close>

definition press_tile :: "int \<Rightarrow> nat \<Rightarrow> py_error + int list \<Rightarrow> py_error + int list" where
  "press_tile modulus tile_idx cur =
     (case cur of
        Inl e \<Rightarrow> Inl e
      | Inr current_board \<Rightarrow>
          if tile_idx < length current_board
          then Inr (current_board[tile_idx :=
                      ((current_board ! tile_idx - 1 + 1) mod modulus) + 1])
          else Inl IndexError)"

definition affected_of :: "(nat, nat list) dict \<Rightarrow> nat \<Rightarrow> nat list" where
  "affected_of adj_map idx = (case dict_get adj_map idx of None \<Rightarrow> [] | Some l \<Rightarrow> l)"

fun replay ::
  "(nat, nat list) dict \<Rightarrow> nat \<Rightarrow> int \<Rightarrow> int list \<Rightarrow> click_id list
     \<Rightarrow> py_error + solution_step list" where
  "replay adj_map size_rc modulus current_board [] = Inr []"
| "replay adj_map size_rc modulus current_board (c # rest) =
     (let affected = affected_of adj_map (click_index size_rc c) in
      case fold (press_tile modulus) affected (Inr current_board) of
        Inl e \<Rightarrow> Inl e
      | Inr board' \<Rightarrow>
          (case replay adj_map size_rc modulus board' rest of
             Inl e \<Rightarrow> Inl e
           | Inr steps \<Rightarrow>
               Inr (\<lparr>click = c, affected_tiles = affected, board_state = board'\<rparr> # steps)))"

definition solve :: "board \<Rightarrow> string \<Rightarrow> py_error + solution_step list option" where
  "solve initial_board difficulty =
     (case difficulty_config difficulty of
        None \<Rightarrow> Inr None
      | Some (size_rc, n, modulus, lay) \<Rightarrow>
          (case adj_map_of lay size_rc n of
             Inl e \<Rightarrow> Inl e
           | Inr adj_map \<Rightarrow>
               (case effects_matrix n adj_map of
                  Inl e \<Rightarrow> Inl e
                | Inr A \<Rightarrow>
                    (case np_flatten initial_board of
                       Inl e \<Rightarrow> Inl e
                     | Inr initial_flat \<Rightarrow>
                         (case press_counts difficulty n modulus A
                                 (map (\<lambda>v. (1 - v) mod modulus) initial_flat) of
                            Inl e \<Rightarrow> Inl e
                          | Inr None \<Rightarrow> Inr None
                          | Inr (Some x) \<Rightarrow>
                              (case replay adj_map size_rc modulus initial_flat
                                      (click_path lay size_rc x) of
                                 Inl e \<Rightarrow> Inl e
                               | Inr steps \<Rightarrow> Inr (Some steps)))))))"

section \<open>Computed tables\<close>

text \<open>
  The values that the builders return for the four difficulties, written out. Each is
  proved equal to the function it comes from before it is used (lemmas
  \<open>hexagon_details_3\<close>, \<open>hexagon_effects_eq\<close>, \<open>easy_effects_eq\<close>,
  \<open>medium_effects_eq\<close>).
\<close>

definition hexagon_adj_radius3 :: "(nat, nat list) dict" where
  "hexagon_adj_radius3 =
     [(0, [0, 1, 4, 5]), (1, [0, 1, 2, 5, 6]), (2, [1, 2, 3, 6, 7]), (3, [2, 3, 7, 8]), (4,
     [0, 4, 5, 9, 10]), (5, [0, 1, 4, 5, 6, 10, 11]), (6, [1, 2, 5, 6, 7, 11, 12]), (7, [2,
     3, 6, 7, 8, 12, 13]), (8, [3, 7, 8, 13, 14]), (9, [4, 9, 10, 15, 16]), (10, [4, 5, 9,
     10, 11, 16, 17]), (11, [5, 6, 10, 11, 12, 17, 18]), (12, [6, 7, 11, 12, 13, 18, 19]),
     (13, [7, 8, 12, 13, 14, 19, 20]), (14, [8, 13, 14, 20, 21]), (15, [9, 15, 16, 22]),
     (16, [9, 10, 15, 16, 17, 22, 23]), (17, [10, 11, 16, 17, 18, 23, 24]), (18, [11, 12,
     17, 18, 19, 24, 25]), (19, [12, 13, 18, 19, 20, 25, 26]), (20, [13, 14, 19, 20, 21, 26,
     27]), (21, [14, 20, 21, 27]), (22, [15, 16, 22, 23, 28]), (23, [16, 17, 22, 23, 24, 28,
     29]), (24, [17, 18, 23, 24, 25, 29, 30]), (25, [18, 19, 24, 25, 26, 30, 31]), (26, [19,
     20, 25, 26, 27, 31, 32]), (27, [20, 21, 26, 27, 32]), (28, [22, 23, 28, 29, 33]), (29,
     [23, 24, 28, 29, 30, 33, 34]), (30, [24, 25, 29, 30, 31, 34, 35]), (31, [25, 26, 30,
     31, 32, 35, 36]), (32, [26, 27, 31, 32, 36]), (33, [28, 29, 33, 34]), (34, [29, 30, 33,
     34, 35]), (35, [30, 31, 34, 35, 36]), (36, [31, 32, 35, 36])]"

definition hexagon_effects :: matrix where
  "hexagon_effects =
     [[1, 1, 0, 0, 1, 1, 0, 0, 0, 0, 0, 0, 0, 0, 0, 0, 0, 0, 0, 0, 0, 0, 0, 0, 0, 0, 0, 0,
     0, 0, 0, 0, 0, 0, 0, 0, 0], [1, 1, 1, 0, 0, 1, 1, 0, 0, 0, 0, 0, 0, 0, 0, 0, 0, 0, 0,
     0, 0, 0, 0, 0, 0, 0, 0, 0, 0, 0, 0, 0, 0, 0, 0, 0, 0], [0, 1, 1, 1, 0, 0, 1, 1, 0, 0,
     0, 0, 0, 0, 0, 0, 0, 0, 0, 0, 0, 0, 0, 0, 0, 0, 0, 0, 0, 0, 0, 0, 0, 0, 0, 0, 0], [0,
     0, 1, 1, 0, 0, 0, 1, 1, 0, 0, 0, 0, 0, 0, 0, 0, 0, 0, 0, 0, 0, 0, 0, 0, 0, 0, 0, 0, 0,
     0, 0, 0, 0, 0, 0, 0], [1, 0, 0, 0, 1, 1, 0, 0, 0, 1, 1, 0, 0, 0, 0, 0, 0, 0, 0, 0, 0,
     0, 0, 0, 0, 0, 0, 0, 0, 0, 0, 0, 0, 0, 0, 0, 0], [1, 1, 0, 0, 1, 1, 1, 0, 0, 0, 1, 1,
     0, 0, 0, 0, 0, 0, 0, 0, 0, 0, 0, 0, 0, 0, 0, 0, 0, 0, 0, 0, 0, 0, 0, 0, 0], [0, 1, 1,
     0, 0, 1, 1, 1, 0, 0, 0, 1, 1, 0, 0, 0, 0, 0, 0, 0, 0, 0, 0, 0, 0, 0, 0, 0, 0, 0, 0, 0,
     0, 0, 0, 0, 0], [0, 0, 1, 1, 0, 0, 1, 1, 1, 0, 0, 0, 1, 1, 0, 0, 0, 0, 0, 0, 0, 0, 0,
     0, 0, 0, 0, 0, 0, 0, 0, 0, 0, 0, 0, 0, 0], [0, 0, 0, 1, 0, 0, 0, 1, 1, 0, 0, 0, 0, 1,
     1, 0, 0, 0, 0, 0, 0, 0, 0, 0, 0, 0, 0, 0, 0, 0, 0, 0, 0, 0, 0, 0, 0], [0, 0, 0, 0, 1,
     0, 0, 0, 0, 1, 1, 0, 0, 0, 0, 1, 1, 0, 0, 0, 0, 0, 0, 0, 0, 0, 0, 0, 0, 0, 0, 0, 0, 0,
     0, 0, 0], [0, 0, 0, 0, 1, 1, 0, 0, 0, 1, 1, 1, 0, 0, 0, 0, 1, 1, 0, 0, 0, 0, 0, 0, 0,
     0, 0, 0, 0, 0, 0, 0, 0, 0, 0, 0, 0], [0, 0, 0, 0, 0, 1, 1, 0, 0, 0, 1, 1, 1, 0, 0, 0,
     0, 1, 1, 0, 0, 0, 0, 0, 0, 0, 0, 0, 0, 0, 0, 0, 0, 0, 0, 0, 0], [0, 0, 0, 0, 0, 0, 1,
     1, 0, 0, 0, 1, 1, 1, 0, 0, 0, 0, 1, 1, 0, 0, 0, 0, 0, 0, 0, 0, 0, 0, 0, 0, 0, 0, 0, 0,
     0], [0, 0, 0, 0, 0, 0, 0, 1, 1, 0, 0, 0, 1, 1, 1, 0, 0, 0, 0, 1, 1, 0, 0, 0, 0, 0, 0,
     0, 0, 0, 0, 0, 0, 0, 0, 0, 0], [0, 0, 0, 0, 0, 0, 0, 0, 1, 0, 0, 0, 0, 1, 1, 0, 0, 0,
     0, 0, 1, 1, 0, 0, 0, 0, 0, 0, 0, 0, 0, 0, 0, 0, 0, 0, 0], [0, 0, 0, 0, 0, 0, 0, 0, 0,
     1, 0, 0, 0, 0, 0, 1, 1, 0, 0, 0, 0, 0, 1, 0, 0, 0, 0, 0, 0, 0, 0, 0, 0, 0, 0, 0, 0],
     [0, 0, 0, 0, 0, 0, 0, 0, 0, 1, 1, 0, 0, 0, 0, 1, 1, 1, 0, 0, 0, 0, 1, 1, 0, 0, 0, 0, 0,
     0, 0, 0, 0, 0, 0, 0, 0], [0, 0, 0, 0, 0, 0, 0, 0, 0, 0, 1, 1, 0, 0, 0, 0, 1, 1, 1, 0,
     0, 0, 0, 1, 1, 0, 0, 0, 0, 0, 0, 0, 0, 0, 0, 0, 0], [0, 0, 0, 0, 0, 0, 0, 0, 0, 0, 0,
     1, 1, 0, 0, 0, 0, 1, 1, 1, 0, 0, 0, 0, 1, 1, 0, 0, 0, 0, 0, 0, 0, 0, 0, 0, 0], [0, 0,
     0, 0, 0, 0, 0, 0, 0, 0, 0, 0, 1, 1, 0, 0, 0, 0, 1, 1, 1, 0, 0, 0, 0, 1, 1, 0, 0, 0, 0,
     0, 0, 0, 0, 0, 0], [0, 0, 0, 0, 0, 0, 0, 0, 0, 0, 0, 0, 0, 1, 1, 0, 0, 0, 0, 1, 1, 1,
     0, 0, 0, 0, 1, 1, 0, 0, 0, 0, 0, 0, 0, 0, 0], [0, 0, 0, 0, 0, 0, 0, 0, 0, 0, 0, 0, 0,
     0, 1, 0, 0, 0, 0, 0, 1, 1, 0, 0, 0, 0, 0, 1, 0, 0, 0, 0, 0, 0, 0, 0, 0], [0, 0, 0, 0,
     0, 0, 0, 0, 0, 0, 0, 0, 0, 0, 0, 1, 1, 0, 0, 0, 0, 0, 1, 1, 0, 0, 0, 0, 1, 0, 0, 0, 0,
     0, 0, 0, 0], [0, 0, 0, 0, 0, 0, 0, 0, 0, 0, 0, 0, 0, 0, 0, 0, 1, 1, 0, 0, 0, 0, 1, 1,
     1, 0, 0, 0, 1, 1, 0, 0, 0, 0, 0, 0, 0], [0, 0, 0, 0, 0, 0, 0, 0, 0, 0, 0, 0, 0, 0, 0,
     0, 0, 1, 1, 0, 0, 0, 0, 1, 1, 1, 0, 0, 0, 1, 1, 0, 0, 0, 0, 0, 0], [0, 0, 0, 0, 0, 0,
     0, 0, 0, 0, 0, 0, 0, 0, 0, 0, 0, 0, 1, 1, 0, 0, 0, 0, 1, 1, 1, 0, 0, 0, 1, 1, 0, 0, 0,
     0, 0], [0, 0, 0, 0, 0, 0, 0, 0, 0, 0, 0, 0, 0, 0, 0, 0, 0, 0, 0, 1, 1, 0, 0, 0, 0, 1,
     1, 1, 0, 0, 0, 1, 1, 0, 0, 0, 0], [0, 0, 0, 0, 0, 0, 0, 0, 0, 0, 0, 0, 0, 0, 0, 0, 0,
     0, 0, 0, 1, 1, 0, 0, 0, 0, 1, 1, 0, 0, 0, 0, 1, 0, 0, 0, 0], [0, 0, 0, 0, 0, 0, 0, 0,
     0, 0, 0, 0, 0, 0, 0, 0, 0, 0, 0, 0, 0, 0, 1, 1, 0, 0, 0, 0, 1, 1, 0, 0, 0, 1, 0, 0, 0],
     [0, 0, 0, 0, 0, 0, 0, 0, 0, 0, 0, 0, 0, 0, 0, 0, 0, 0, 0, 0, 0, 0, 0, 1, 1, 0, 0, 0, 1,
     1, 1, 0, 0, 1, 1, 0, 0], [0, 0, 0, 0, 0, 0, 0, 0, 0, 0, 0, 0, 0, 0, 0, 0, 0, 0, 0, 0,
     0, 0, 0, 0, 1, 1, 0, 0, 0, 1, 1, 1, 0, 0, 1, 1, 0], [0, 0, 0, 0, 0, 0, 0, 0, 0, 0, 0,
     0, 0, 0, 0, 0, 0, 0, 0, 0, 0, 0, 0, 0, 0, 1, 1, 0, 0, 0, 1, 1, 1, 0, 0, 1, 1], [0, 0,
     0, 0, 0, 0, 0, 0, 0, 0, 0, 0, 0, 0, 0, 0, 0, 0, 0, 0, 0, 0, 0, 0, 0, 0, 1, 1, 0, 0, 0,
     1, 1, 0, 0, 0, 1], [0, 0, 0, 0, 0, 0, 0, 0, 0, 0, 0, 0, 0, 0, 0, 0, 0, 0, 0, 0, 0, 0,
     0, 0, 0, 0, 0, 0, 1, 1, 0, 0, 0, 1, 1, 0, 0], [0, 0, 0, 0, 0, 0, 0, 0, 0, 0, 0, 0, 0,
     0, 0, 0, 0, 0, 0, 0, 0, 0, 0, 0, 0, 0, 0, 0, 0, 1, 1, 0, 0, 1, 1, 1, 0], [0, 0, 0, 0,
     0, 0, 0, 0, 0, 0, 0, 0, 0, 0, 0, 0, 0, 0, 0, 0, 0, 0, 0, 0, 0, 0, 0, 0, 0, 0, 1, 1, 0,
     0, 1, 1, 1], [0, 0, 0, 0, 0, 0, 0, 0, 0, 0, 0, 0, 0, 0, 0, 0, 0, 0, 0, 0, 0, 0, 0, 0,
     0, 0, 0, 0, 0, 0, 0, 1, 1, 0, 0, 1, 1]]"

definition easy_effects :: matrix where
  "easy_effects =
     [[1, 1, 0, 1, 1, 0, 0, 0, 0], [1, 1, 1, 1, 1, 1, 0, 0, 0], [0, 1, 1, 0, 1, 1, 0, 0, 0],
     [1, 1, 0, 1, 1, 0, 1, 1, 0], [1, 1, 1, 1, 1, 1, 1, 1, 1], [0, 1, 1, 0, 1, 1, 0, 1, 1],
     [0, 0, 0, 1, 1, 0, 1, 1, 0], [0, 0, 0, 1, 1, 1, 1, 1, 1], [0, 0, 0, 0, 1, 1, 0, 1, 1]]"

definition medium_effects :: matrix where
  "medium_effects =
     [[1, 1, 0, 0, 1, 1, 0, 0, 0, 0, 0, 0, 0, 0, 0, 0], [1, 1, 1, 0, 1, 1, 1, 0, 0, 0, 0, 0,
     0, 0, 0, 0], [0, 1, 1, 1, 0, 1, 1, 1, 0, 0, 0, 0, 0, 0, 0, 0], [0, 0, 1, 1, 0, 0, 1, 1,
     0, 0, 0, 0, 0, 0, 0, 0], [1, 1, 0, 0, 1, 1, 0, 0, 1, 1, 0, 0, 0, 0, 0, 0], [1, 1, 1, 0,
     1, 1, 1, 0, 1, 1, 1, 0, 0, 0, 0, 0], [0, 1, 1, 1, 0, 1, 1, 1, 0, 1, 1, 1, 0, 0, 0, 0],
     [0, 0, 1, 1, 0, 0, 1, 1, 0, 0, 1, 1, 0, 0, 0, 0], [0, 0, 0, 0, 1, 1, 0, 0, 1, 1, 0, 0,
     1, 1, 0, 0], [0, 0, 0, 0, 1, 1, 1, 0, 1, 1, 1, 0, 1, 1, 1, 0], [0, 0, 0, 0, 0, 1, 1, 1,
     0, 1, 1, 1, 0, 1, 1, 1], [0, 0, 0, 0, 0, 0, 1, 1, 0, 0, 1, 1, 0, 0, 1, 1], [0, 0, 0, 0,
     0, 0, 0, 0, 1, 1, 0, 0, 1, 1, 0, 0], [0, 0, 0, 0, 0, 0, 0, 0, 1, 1, 1, 0, 1, 1, 1, 0],
     [0, 0, 0, 0, 0, 0, 0, 0, 0, 1, 1, 1, 0, 1, 1, 1], [0, 0, 0, 0, 0, 0, 0, 0, 0, 0, 1, 1,
     0, 0, 1, 1]]"

section \<open>The solver as the specification words it\<close>

text \<open>
  Section 4.3 of the specification: every entry of the augmented matrix is reduced mod
  \<open>m\<close> before the elimination, and the pivot scan of column \<open>i\<close> takes the first row from
  row \<open>i\<close> downward whose entry is nonzero mod \<open>m\<close>. Inverse, scaling, elimination, the
  consistency test and the back substitution are the ones of the code.
\<close>

function pivot_scan_spec :: "int \<Rightarrow> matrix \<Rightarrow> nat \<Rightarrow> nat \<Rightarrow> nat \<Rightarrow> nat" where
  "pivot_scan_spec m Ab n i pivot_row =
     (if pivot_row < n \<and> Ab ! pivot_row ! i mod m = 0
      then pivot_scan_spec m Ab n i (pivot_row + 1)
      else pivot_row)"
  by pat_completeness auto
termination
  by (relation "measure (\<lambda>(m, Ab, n, i, pivot_row). n - pivot_row)") auto

declare pivot_scan_spec.simps [simp del]

definition pivot_column_spec :: "int \<Rightarrow> nat \<Rightarrow> matrix \<Rightarrow> nat \<Rightarrow> matrix option" where
  "pivot_column_spec m n Ab i =
     (let pivot_row = pivot_scan_spec m Ab n i i in
      if pivot_row = n then Some Ab
      else
        let Ab1 = Ab[i := Ab ! pivot_row, pivot_row := Ab ! i] in
        case mod_inverse (Ab1 ! i ! i) m of
          None \<Rightarrow> None
        | Some inv_m \<Rightarrow>
            let Ab2 = Ab1[i := map (\<lambda>v. (v * inv_m) mod m) (Ab1 ! i)] in
            Some (fold (\<lambda>j M. eliminate_row m i M j) [0 ..< n] Ab2))"

fun elimination_spec :: "int \<Rightarrow> nat \<Rightarrow> nat list \<Rightarrow> matrix \<Rightarrow> matrix option" where
  "elimination_spec m n [] Ab = Some Ab"
| "elimination_spec m n (i # cols) Ab =
     (case pivot_column_spec m n Ab i of
        None \<Rightarrow> None
      | Some Ab' \<Rightarrow> elimination_spec m n cols Ab')"

definition gaussian_elimination_mod_spec ::
  "matrix \<Rightarrow> int list \<Rightarrow> int \<Rightarrow> py_error + int list option" where
  "gaussian_elimination_mod_spec A b m =
     (let n = length A in
      if length b \<noteq> n then Inl ValueError
      else
        case elimination_spec m n [0 ..< n] (map (map (\<lambda>v. v mod m)) (augment A b)) of
          None \<Rightarrow> Inr None
        | Some Ab \<Rightarrow>
            if inconsistent Ab then Inr None
            else Inr (Some (back_substitution m n Ab)))"

section \<open>Shapes and ranges of matrices\<close>

text \<open>An \<open>n \<times> (n + 1)\<close> array, and an array whose entries all lie in \<open>[0, m)\<close>.\<close>

definition augmented :: "nat \<Rightarrow> matrix \<Rightarrow> bool" where
  "augmented n M = (length M = n \<and> list_all (\<lambda>row. length row = n + 1) M)"

definition in_range :: "int \<Rightarrow> matrix \<Rightarrow> bool" where
  "in_range m M = list_all (list_all (\<lambda>v. 0 \<le> v \<and> v < m)) M"

definition square :: "matrix \<Rightarrow> bool" where
  "square A = list_all (\<lambda>row. length row = length A) A"

section \<open>The loop of the back substitution\<close>

text \<open>
  \<open>for i in range(n - 1, -1, -1)\<close> as a recursion on the list of row indices; lemma
  \<open>back_substitution_steps\<close> shows that it is the loop of \<open>back_substitution\<close>.
\<close>

fun back_steps :: "int \<Rightarrow> matrix \<Rightarrow> nat list \<Rightarrow> int list \<Rightarrow> int list" where
  "back_steps m Ab [] x = x"
| "back_steps m Ab (i # cols) x = back_steps m Ab cols (back_step m Ab x i)"

section \<open>Names for the parts of the hexagon builder\<close>

text \<open>
  The list that the loop over \<open>valid_cells\<close> builds for one cell, and the index that
  \<open>coord_to_index\<close> gives a cell.
\<close>

definition cell_neighbours :: "int \<Rightarrow> int \<times> int \<Rightarrow> (int \<times> int) list" where
  "cell_neighbours radius cell_offset =
     (case dict_get (offset_to_axial_map radius) cell_offset of
        None \<Rightarrow> []
      | Some start_axial \<Rightarrow>
          cell_offset #
          List.map_filter
            (\<lambda>(dq, dr). dict_get (axial_to_offset_map radius)
                           (fst start_axial + dq, snd start_axial + dr))
            axial_directions)"

definition cell_index :: "int \<Rightarrow> int \<times> int \<Rightarrow> nat" where
  "cell_index radius coord =
     (case dict_get (coord_to_index radius) coord of None \<Rightarrow> 0 | Some k \<Rightarrow> k)"

text \<open>
  The axial coordinates a button at \<open>a\<close> acts on: \<open>a\<close> itself and the neighbours in the six
  directions that belong to the board.
\<close>

definition axial_neighbourhood :: "int \<Rightarrow> int \<times> int \<Rightarrow> (int \<times> int) list" where
  "axial_neighbourhood radius a =
     a # filter (\<lambda>a'. a' \<in> set (axial_coords radius))
           (map (\<lambda>(dq, dr). (fst a + dq, snd a + dr)) axial_directions)"

text \<open>Two axial coordinates are the same or neighbours in one of the six directions.\<close>

definition near :: "int \<times> int \<Rightarrow> int \<times> int \<Rightarrow> bool" where
  "near a a' = (a' = a \<or> (fst a' - fst a, snd a' - snd a) \<in> set axial_directions)"

section \<open>Linear systems modulo \<open>m\<close>\<close>

text \<open>
  \<open>np.dot\<close> of two vectors, and what it means that \<open>x\<close> solves the rows of an augmented
  matrix modulo \<open>m\<close>: for a row \<open>(a, c)\<close> the difference \<open>a \<cdot> x - c\<close>, which is the product of the
  row with \<open>x\<close> extended by \<open>-1\<close>, is divisible by \<open>m\<close>.
\<close>

definition dotp :: "int list \<Rightarrow> int list \<Rightarrow> int" where
  "dotp xs ys = sum_list (map2 (*) xs ys)"

definition solves :: "int \<Rightarrow> int list \<Rightarrow> matrix \<Rightarrow> bool" where
  "solves m x M = list_all (\<lambda>row. dotp row (x @ [- 1]) mod m = 0) M"

section \<open>The even-q projection\<close>

lemma and_one_floor: "(q - (q AND 1)) div 2 = (q::int) div 2"
  by (simp add: and_one_eq minus_mod_eq_mult_div)

text \<open>
  C7. For every axial coordinate \<open>(q, r)\<close>, negative \<open>q\<close> included, the projection returns
  the column \<open>q\<close> and the row \<open>r + floor(q / 2)\<close>, the floor being the one of the real
  quotient (towards minus infinity): the expression \<open>(q - (q & 1)) // 2\<close> is \<open>floor(q / 2)\<close>.
\<close>

theorem axial_to_offset_floor:
  "axial_to_offset q r = (r + \<lfloor>real_of_int q / 2\<rfloor>, q)"
proof -
  have "\<lfloor>real_of_int q / 2\<rfloor> = q div 2"
    using floor_divide_of_int_eq [of q 2] by simp
  then show ?thesis
    by (simp add: axial_to_offset_def and_one_floor)
qed

section \<open>Unrecognized difficulty labels\<close>

lemma difficulty_config_None:
  "difficulty \<notin> {''easy'', ''medium'', ''hard'', ''expert''} \<Longrightarrow>
   difficulty_config difficulty = None"
  by (simp add: difficulty_config_def)

text \<open>
  C8. For every board and every difficulty label other than easy, medium, hard and expert,
  \<open>solve\<close> returns \<open>None\<close> and raises nothing. The label is the first thing \<open>solve\<close>
  looks at: the result is fixed before the board, the topology or the matrix is touched.
\<close>

theorem solve_unrecognized:
  "difficulty \<notin> {''easy'', ''medium'', ''hard'', ''expert''} \<Longrightarrow>
   solve initial_board difficulty = Inr None"
  by (simp add: solve_def difficulty_config_None)

theorem solve_unrecognized_witness:
  "''nightmare'' \<notin> {''easy'', ''medium'', ''hard'', ''expert''} \<and>
   solve (Flat [0, 1, 2]) ''nightmare'' = Inr None"
  using solve_unrecognized [of "''nightmare''" "Flat [0, 1, 2]"] by simp

section \<open>Boards of the wrong length\<close>

lemma set_effect_length:
  "set_effect n bi ti X = Inr M' \<Longrightarrow> \<exists>M. X = Inr M \<and> length M' = length M"
  by (auto simp: set_effect_def split: sum.splits if_splits)

lemma fold_set_effect_length:
  "fold (set_effect n bi) ts X = Inr M' \<Longrightarrow> \<exists>M. X = Inr M \<and> length M' = length M"
proof (induction ts arbitrary: X)
  case Nil
  then show ?case by simp
next
  case (Cons t ts)
  from Cons.prems have "fold (set_effect n bi) ts (set_effect n bi t X) = Inr M'" by simp
  from Cons.IH [OF this] obtain M1 where m1: "set_effect n bi t X = Inr M1" "length M' = length M1"
    by blast
  from set_effect_length [OF m1(1)] m1(2) show ?case by auto
qed

lemma effects_fold_length:
  "fold (\<lambda>(button_idx, affected_list) A. fold (set_effect n button_idx) affected_list A) adj X
     = Inr M' \<Longrightarrow> \<exists>M. X = Inr M \<and> length M' = length M"
proof (induction adj arbitrary: X)
  case Nil
  then show ?case by simp
next
  case (Cons e adj)
  obtain bi ts where e: "e = (bi, ts)" by (cases e)
  from Cons.prems e
  have "fold (\<lambda>(button_idx, affected_list) A. fold (set_effect n button_idx) affected_list A) adj
          (fold (set_effect n bi) ts X) = Inr M'" by simp
  from Cons.IH [OF this] obtain M1 where m1: "fold (set_effect n bi) ts X = Inr M1"
    "length M' = length M1" by blast
  from fold_set_effect_length [OF m1(1)] m1(2) show ?case by auto
qed

lemma effects_matrix_length: "effects_matrix n adj_map = Inr A \<Longrightarrow> length A = n"
  unfolding effects_matrix_def by (drule effects_fold_length) auto

lemma gem_length_mismatch:
  "length b \<noteq> length A \<Longrightarrow> gaussian_elimination_mod A b m = Inl ValueError"
  by (simp add: gaussian_elimination_mod_def)

lemma gem_no_raise:
  "length b = length A \<Longrightarrow> \<exists>r. gaussian_elimination_mod A b m = Inr r"
  by (simp add: gaussian_elimination_mod_def Let_def split: option.splits)

lemma press_counts_length_mismatch:
  "length b \<noteq> length A \<Longrightarrow> press_counts difficulty n modulus A b = Inl ValueError"
  by (simp add: press_counts_def gem_length_mismatch)

text \<open>
  C9. For every recognized difficulty, a board that does not flatten to exactly \<open>N\<close> entries
  (or does not flatten at all) makes \<open>solve\<close> raise: the result is an exception, never a
  list of steps and never \<open>None\<close>.
\<close>

theorem solve_malformed_length:
  assumes cfg: "difficulty_config difficulty = Some (size_rc, n, modulus, lay)"
    and bad: "\<forall>flat. np_flatten initial_board = Inr flat \<longrightarrow> length flat \<noteq> n"
  shows "\<exists>e. solve initial_board difficulty = Inl e"
proof (cases "adj_map_of lay size_rc n")
  case (Inl e)
  with cfg show ?thesis by (simp add: solve_def)
next
  case adj: (Inr adj_map)
  show ?thesis
  proof (cases "effects_matrix n adj_map")
    case (Inl e)
    with cfg adj show ?thesis by (simp add: solve_def)
  next
    case A: (Inr A)
    then have len: "length A = n" by (rule effects_matrix_length)
    show ?thesis
    proof (cases "np_flatten initial_board")
      case (Inl e)
      with cfg adj A show ?thesis by (simp add: solve_def)
    next
      case (Inr flat)
      with bad len have "length (map (\<lambda>v. (1 - v) mod modulus) flat) \<noteq> length A" by simp
      then have "press_counts difficulty n modulus A (map (\<lambda>v. (1 - v) mod modulus) flat)
                   = Inl ValueError"
        by (rule press_counts_length_mismatch)
      with cfg adj A Inr show ?thesis by (simp add: solve_def)
    qed
  qed
qed

theorem solve_malformed_length_witness:
  "difficulty_config ''easy'' = Some (3, 9, 4, Grid)
   \<and> np_flatten (Flat [0, 1, 2]) = Inr [0, 1, 2]
   \<and> length [0, 1, 2 :: int] \<noteq> 9
   \<and> (\<exists>e. solve (Flat [0, 1, 2]) ''easy'' = Inl e)"
proof -
  have c: "difficulty_config ''easy'' = Some (3, 9, 4, Grid)"
    by (simp add: difficulty_config_def)
  have f: "np_flatten (Flat [0, 1, 2]) = Inr [0, 1, 2]"
    by (simp add: np_flatten_def)
  have b: "\<forall>flat. np_flatten (Flat [0, 1, 2]) = Inr flat \<longrightarrow> length flat \<noteq> 9"
    by (simp add: np_flatten_def)
  from solve_malformed_length [OF c b] c f show ?thesis by simp
qed

section \<open>The hexagon of radius 3, evaluated\<close>

lemma axial_coords_3:
  "axial_coords 3 =
     [(- 3, 0), (- 3, 1), (- 3, 2), (- 3, 3), (- 2, - 1), (- 2, 0), (- 2, 1), (- 2, 2), (-
     2, 3), (- 1, - 2), (- 1, - 1), (- 1, 0), (- 1, 1), (- 1, 2), (- 1, 3), (0, - 3), (0, -
     2), (0, - 1), (0, 0), (0, 1), (0, 2), (0, 3), (1, - 3), (1, - 2), (1, - 1), (1, 0), (1,
     1), (1, 2), (2, - 3), (2, - 2), (2, - 1), (2, 0), (2, 1), (3, - 3), (3, - 2), (3, - 1),
     (3, 0)]"
  by code_simp

lemma offset_coords_unnormalized_3:
  "offset_coords_unnormalized 3 =
     [(- 2, - 3), (- 1, - 3), (0, - 3), (1, - 3), (- 2, - 2), (- 1, - 2), (0, - 2), (1, -
     2), (2, - 2), (- 3, - 1), (- 2, - 1), (- 1, - 1), (0, - 1), (1, - 1), (2, - 1), (- 3,
     0), (- 2, 0), (- 1, 0), (0, 0), (1, 0), (2, 0), (3, 0), (- 3, 1), (- 2, 1), (- 1, 1),
     (0, 1), (1, 1), (2, 1), (- 2, 2), (- 1, 2), (0, 2), (1, 2), (2, 2), (- 2, 3), (- 1, 3),
     (0, 3), (1, 3)]"
  unfolding offset_coords_unnormalized_def axial_coords_3 by code_simp

lemma min_r_3: "min_r 3 = - 3"
  unfolding min_r_def offset_coords_unnormalized_3 by code_simp

lemma min_c_3: "min_c 3 = - 3"
  unfolding min_c_def offset_coords_unnormalized_3 by code_simp

lemma valid_cells_3:
  "valid_cells 3 =
     [(1, 0), (2, 0), (3, 0), (4, 0), (1, 1), (2, 1), (3, 1), (4, 1), (5, 1), (0, 2), (1,
     2), (2, 2), (3, 2), (4, 2), (5, 2), (0, 3), (1, 3), (2, 3), (3, 3), (4, 3), (5, 3), (6,
     3), (0, 4), (1, 4), (2, 4), (3, 4), (4, 4), (5, 4), (1, 5), (2, 5), (3, 5), (4, 5), (5,
     5), (1, 6), (2, 6), (3, 6), (4, 6)]"
  unfolding valid_cells_def offset_coords_unnormalized_3 min_r_3 min_c_3 by code_simp

lemma offset_to_axial_map_3:
  "offset_to_axial_map 3 =
     [((1, 0), - 3, 0), ((2, 0), - 3, 1), ((3, 0), - 3, 2), ((4, 0), - 3, 3), ((1, 1), - 2,
     - 1), ((2, 1), - 2, 0), ((3, 1), - 2, 1), ((4, 1), - 2, 2), ((5, 1), - 2, 3), ((0, 2),
     - 1, - 2), ((1, 2), - 1, - 1), ((2, 2), - 1, 0), ((3, 2), - 1, 1), ((4, 2), - 1, 2),
     ((5, 2), - 1, 3), ((0, 3), 0, - 3), ((1, 3), 0, - 2), ((2, 3), 0, - 1), ((3, 3), 0, 0),
     ((4, 3), 0, 1), ((5, 3), 0, 2), ((6, 3), 0, 3), ((0, 4), 1, - 3), ((1, 4), 1, - 2),
     ((2, 4), 1, - 1), ((3, 4), 1, 0), ((4, 4), 1, 1), ((5, 4), 1, 2), ((1, 5), 2, - 3),
     ((2, 5), 2, - 2), ((3, 5), 2, - 1), ((4, 5), 2, 0), ((5, 5), 2, 1), ((1, 6), 3, - 3),
     ((2, 6), 3, - 2), ((3, 6), 3, - 1), ((4, 6), 3, 0)]"
  unfolding offset_to_axial_map_def norm_offset_def axial_coords_3 min_r_3 min_c_3 by code_simp

lemma axial_to_offset_map_3:
  "axial_to_offset_map 3 =
     [((- 3, 0), 1, 0), ((- 3, 1), 2, 0), ((- 3, 2), 3, 0), ((- 3, 3), 4, 0), ((- 2, - 1),
     1, 1), ((- 2, 0), 2, 1), ((- 2, 1), 3, 1), ((- 2, 2), 4, 1), ((- 2, 3), 5, 1), ((- 1, -
     2), 0, 2), ((- 1, - 1), 1, 2), ((- 1, 0), 2, 2), ((- 1, 1), 3, 2), ((- 1, 2), 4, 2),
     ((- 1, 3), 5, 2), ((0, - 3), 0, 3), ((0, - 2), 1, 3), ((0, - 1), 2, 3), ((0, 0), 3, 3),
     ((0, 1), 4, 3), ((0, 2), 5, 3), ((0, 3), 6, 3), ((1, - 3), 0, 4), ((1, - 2), 1, 4),
     ((1, - 1), 2, 4), ((1, 0), 3, 4), ((1, 1), 4, 4), ((1, 2), 5, 4), ((2, - 3), 1, 5),
     ((2, - 2), 2, 5), ((2, - 1), 3, 5), ((2, 0), 4, 5), ((2, 1), 5, 5), ((3, - 3), 1, 6),
     ((3, - 2), 2, 6), ((3, - 1), 3, 6), ((3, 0), 4, 6)]"
  unfolding axial_to_offset_map_def norm_offset_def axial_coords_3 min_r_3 min_c_3 by code_simp

lemma adjacency_map_by_coord_3:
  "adjacency_map_by_coord 3 =
     Inr [((1, 0), [(1, 0), (2, 1), (1, 1), (2, 0)]), ((2, 0), [(2, 0), (3, 1), (2, 1), (1,
         0), (3, 0)]), ((3, 0), [(3, 0), (4, 1), (3, 1), (2, 0), (4, 0)]), ((4, 0), [(4, 0),
         (5, 1), (4, 1), (3, 0)]), ((1, 1), [(1, 1), (1, 2), (0, 2), (1, 0), (2, 1)]), ((2,
         1), [(2, 1), (2, 2), (1, 2), (1, 1), (1, 0), (2, 0), (3, 1)]), ((3, 1), [(3, 1),
         (3, 2), (2, 2), (2, 1), (2, 0), (3, 0), (4, 1)]), ((4, 1), [(4, 1), (4, 2), (3, 2),
         (3, 1), (3, 0), (4, 0), (5, 1)]), ((5, 1), [(5, 1), (5, 2), (4, 2), (4, 1), (4,
         0)]), ((0, 2), [(0, 2), (1, 3), (0, 3), (1, 1), (1, 2)]), ((1, 2), [(1, 2), (2, 3),
         (1, 3), (0, 2), (1, 1), (2, 1), (2, 2)]), ((2, 2), [(2, 2), (3, 3), (2, 3), (1, 2),
         (2, 1), (3, 1), (3, 2)]), ((3, 2), [(3, 2), (4, 3), (3, 3), (2, 2), (3, 1), (4, 1),
         (4, 2)]), ((4, 2), [(4, 2), (5, 3), (4, 3), (3, 2), (4, 1), (5, 1), (5, 2)]), ((5,
         2), [(5, 2), (6, 3), (5, 3), (4, 2), (5, 1)]), ((0, 3), [(0, 3), (0, 4), (0, 2),
         (1, 3)]), ((1, 3), [(1, 3), (1, 4), (0, 4), (0, 3), (0, 2), (1, 2), (2, 3)]), ((2,
         3), [(2, 3), (2, 4), (1, 4), (1, 3), (1, 2), (2, 2), (3, 3)]), ((3, 3), [(3, 3),
         (3, 4), (2, 4), (2, 3), (2, 2), (3, 2), (4, 3)]), ((4, 3), [(4, 3), (4, 4), (3, 4),
         (3, 3), (3, 2), (4, 2), (5, 3)]), ((5, 3), [(5, 3), (5, 4), (4, 4), (4, 3), (4, 2),
         (5, 2), (6, 3)]), ((6, 3), [(6, 3), (5, 4), (5, 3), (5, 2)]), ((0, 4), [(0, 4), (1,
         5), (0, 3), (1, 3), (1, 4)]), ((1, 4), [(1, 4), (2, 5), (1, 5), (0, 4), (1, 3), (2,
         3), (2, 4)]), ((2, 4), [(2, 4), (3, 5), (2, 5), (1, 4), (2, 3), (3, 3), (3, 4)]),
         ((3, 4), [(3, 4), (4, 5), (3, 5), (2, 4), (3, 3), (4, 3), (4, 4)]), ((4, 4), [(4,
         4), (5, 5), (4, 5), (3, 4), (4, 3), (5, 3), (5, 4)]), ((5, 4), [(5, 4), (5, 5), (4,
         4), (5, 3), (6, 3)]), ((1, 5), [(1, 5), (1, 6), (0, 4), (1, 4), (2, 5)]), ((2, 5),
         [(2, 5), (2, 6), (1, 6), (1, 5), (1, 4), (2, 4), (3, 5)]), ((3, 5), [(3, 5), (3,
         6), (2, 6), (2, 5), (2, 4), (3, 4), (4, 5)]), ((4, 5), [(4, 5), (4, 6), (3, 6), (3,
         5), (3, 4), (4, 4), (5, 5)]), ((5, 5), [(5, 5), (4, 6), (4, 5), (4, 4), (5, 4)]),
         ((1, 6), [(1, 6), (1, 5), (2, 5), (2, 6)]), ((2, 6), [(2, 6), (1, 6), (2, 5), (3,
         5), (3, 6)]), ((3, 6), [(3, 6), (2, 6), (3, 5), (4, 5), (4, 6)]), ((4, 6), [(4, 6),
         (3, 6), (4, 5), (5, 5)])]"
  unfolding adjacency_map_by_coord_def cell_adjacency_def valid_cells_3 offset_to_axial_map_3
    axial_to_offset_map_3
  by code_simp

lemma coord_to_index_3:
  "coord_to_index 3 =
     [((1, 0), 0), ((2, 0), 1), ((3, 0), 2), ((4, 0), 3), ((1, 1), 4), ((2, 1), 5), ((3, 1),
     6), ((4, 1), 7), ((5, 1), 8), ((0, 2), 9), ((1, 2), 10), ((2, 2), 11), ((3, 2), 12),
     ((4, 2), 13), ((5, 2), 14), ((0, 3), 15), ((1, 3), 16), ((2, 3), 17), ((3, 3), 18),
     ((4, 3), 19), ((5, 3), 20), ((6, 3), 21), ((0, 4), 22), ((1, 4), 23), ((2, 4), 24),
     ((3, 4), 25), ((4, 4), 26), ((5, 4), 27), ((1, 5), 28), ((2, 5), 29), ((3, 5), 30),
     ((4, 5), 31), ((5, 5), 32), ((1, 6), 33), ((2, 6), 34), ((3, 6), 35), ((4, 6), 36)]"
  unfolding coord_to_index_def sorted_coords_def valid_cells_3 by code_simp

lemma hexagon_details_3: "get_hexagon_board_details 3 = Inr hexagon_adj_radius3"
  unfolding get_hexagon_board_details_def adjacency_map_by_coord_3 adj_entry_def coord_to_index_3
    offset_coords_unnormalized_3 hexagon_adj_radius3_def
  by code_simp

lemma hexagon_effects_eq: "effects_matrix 37 hexagon_adj_radius3 = Inr hexagon_effects"
  by code_simp

lemma easy_effects_eq: "effects_matrix 9 (grid_adj_map 3 9) = Inr easy_effects"
  by code_simp

lemma medium_effects_eq: "effects_matrix 16 (grid_adj_map 4 16) = Inr medium_effects"
  by code_simp


section \<open>Evaluations of the solver on the puzzle matrices\<close>

lemma gem_hexagon_unsolvable:
  "gaussian_elimination_mod hexagon_effects (replicate 36 0 @ [1]) 2 = Inr None"
  by code_simp

section \<open>The composite solver for modulus 6\<close>

lemma update_keeps:
  "\<forall>v\<in>set x. P v \<Longrightarrow> P w \<Longrightarrow> \<forall>v\<in>set (x[i := w]). P v"
  using set_update_subset_insert [of x i w] by auto

lemma back_step_range:
  assumes "0 < m" "length x = n" "\<forall>v\<in>set x. 0 \<le> v \<and> v < m"
  shows "length (back_step m Ab x i) = n \<and> (\<forall>v\<in>set (back_step m Ab x i). 0 \<le> v \<and> v < m)"
proof (cases "Ab ! i ! i = 1")
  case True
  let ?w = "(last (Ab ! i)
             - sum_list (map2 (*) (drop (i + 1) (butlast (Ab ! i))) (drop (i + 1) x))) mod m"
  from assms(1) have "0 \<le> ?w \<and> ?w < m" by simp
  from update_keeps [OF assms(3) this] True assms(2) show ?thesis
    by (simp add: back_step_def)
next
  case False
  from assms(1) have "0 \<le> (0::int) \<and> 0 < m" by simp
  from update_keeps [OF assms(3) this] False assms(2) show ?thesis
    by (simp add: back_step_def)
qed

lemma fold_back_step_range:
  assumes "0 < m"
  shows "length x = n \<Longrightarrow> \<forall>v\<in>set x. 0 \<le> v \<and> v < m \<Longrightarrow>
         length (fold (\<lambda>i x. back_step m Ab x i) cols x) = n
         \<and> (\<forall>v\<in>set (fold (\<lambda>i x. back_step m Ab x i) cols x). 0 \<le> v \<and> v < m)"
proof (induction cols arbitrary: x)
  case Nil
  then show ?case by simp
next
  case (Cons i cols)
  from back_step_range [OF assms Cons.prems, of Ab i]
  have "length (back_step m Ab x i) = n" "\<forall>v\<in>set (back_step m Ab x i). 0 \<le> v \<and> v < m"
    by blast+
  from Cons.IH [OF this] show ?case by simp
qed

lemma back_substitution_range:
  assumes "0 < m"
  shows "length (back_substitution m n Ab) = n
         \<and> (\<forall>v\<in>set (back_substitution m n Ab). 0 \<le> v \<and> v < m)"
  unfolding back_substitution_def
  using assms by (intro fold_back_step_range) auto

lemma gem_result_range:
  assumes "0 < m" "gaussian_elimination_mod A b m = Inr (Some x)"
  shows "length x = length A \<and> (\<forall>i<length A. 0 \<le> x ! i \<and> x ! i < m)"
proof -
  from assms(2) obtain Ab where "x = back_substitution m (length A) Ab"
    by (auto simp: gaussian_elimination_mod_def Let_def split: if_splits option.splits)
  with back_substitution_range [OF assms(1), of "length A" Ab] show ?thesis
    by (auto simp: all_set_conv_all_nth)
qed

lemma crt_digit_table:
  "crt_digit 0 0 = 0" "crt_digit 1 1 = 1" "crt_digit 0 2 = 2"
  "crt_digit 1 0 = 3" "crt_digit 0 1 = 4" "crt_digit 1 2 = 5"
  by code_simp+

lemma crt_digit_residues:
  assumes "0 \<le> r2" "r2 < 2" "0 \<le> r3" "r3 < 3"
  shows "0 \<le> crt_digit r2 r3 \<and> crt_digit r2 r3 \<le> 5
         \<and> crt_digit r2 r3 mod 2 = r2 \<and> crt_digit r2 r3 mod 3 = r3"
proof -
  from assms have "r2 = 0 \<or> r2 = 1" "r3 = 0 \<or> r3 = 1 \<or> r3 = 2" by arith+
  then show ?thesis by (auto simp: crt_digit_table)
qed

lemma residues_unique:
  fixes k k' :: int
  assumes "0 \<le> k" "k \<le> 5" "0 \<le> k'" "k' \<le> 5" "k mod 2 = k' mod 2" "k mod 3 = k' mod 3"
  shows "k = k'"
proof -
  from assms(1,2) have k: "k = 0 \<or> k = 1 \<or> k = 2 \<or> k = 3 \<or> k = 4 \<or> k = 5" by arith
  from assms(3,4) have k': "k' = 0 \<or> k' = 1 \<or> k' = 2 \<or> k' = 3 \<or> k' = 4 \<or> k' = 5" by arith
  from k k' assms(5,6) show ?thesis by auto
qed

lemma crt_combine_nth:
  "i < n \<Longrightarrow> crt_combine n x2 x3 ! i = crt_digit (x2 ! i) (x3 ! i)"
  by (simp add: crt_combine_def)

lemma crt_combine_length: "length (crt_combine n x2 x3) = n"
  by (simp add: crt_combine_def)

lemma difficulty_config_expert: "difficulty_config ''expert'' = Some (0, 37, 6, Hexagon)"
  by (simp add: difficulty_config_def)

lemma difficulty_config_hard: "difficulty_config ''hard'' = Some (0, 37, 2, Hexagon)"
  by (simp add: difficulty_config_def)

lemma difficulty_config_easy: "difficulty_config ''easy'' = Some (3, 9, 4, Grid)"
  by (simp add: difficulty_config_def)

lemma difficulty_config_medium: "difficulty_config ''medium'' = Some (4, 16, 4, Grid)"
  by (simp add: difficulty_config_def)

lemma hexagon_effects_length: "length hexagon_effects = 37"
  using effects_matrix_length [OF hexagon_effects_eq] .

lemma solve_hexagon:
  assumes "difficulty = ''hard'' \<or> difficulty = ''expert''"
    and "np_flatten initial_board = Inr initial_flat"
  shows "solve initial_board difficulty =
     (let modulus = (if difficulty = ''hard'' then 2 else 6) in
      case press_counts difficulty 37 modulus hexagon_effects
             (map (\<lambda>v. (1 - v) mod modulus) initial_flat) of
        Inl e \<Rightarrow> Inl e
      | Inr None \<Rightarrow> Inr None
      | Inr (Some x) \<Rightarrow>
          (case replay hexagon_adj_radius3 0 modulus initial_flat (click_path Hexagon 0 x) of
             Inl e \<Rightarrow> Inl e
           | Inr steps \<Rightarrow> Inr (Some steps)))"
  using assms
  by (auto simp: solve_def difficulty_config_expert difficulty_config_hard adj_map_of_def
      hexagon_details_3 hexagon_effects_eq)

text \<open>
  C4. For the expert difficulty (a board of 37 entries), both sub-solves return without
  raising. If the mod-2 or the mod-3 solve returns \<open>None\<close>, the press-count step and
  \<open>solve\<close> return \<open>None\<close>. Otherwise the press count of every tile \<open>i\<close> is the unique
  value in \<open>{0,...,5}\<close> that is \<open>x2[i]\<close> mod 2 and \<open>x3[i]\<close> mod 3.
\<close>

theorem expert_composite_contract:
  assumes flat: "np_flatten initial_board = Inr initial_flat"
    and len: "length initial_flat = 37"
    and b: "b = map (\<lambda>v. (1 - v) mod 6) initial_flat"
  shows "\<exists>r2 r3.
           gaussian_elimination_mod hexagon_effects (map (\<lambda>v. v mod 2) b) 2 = Inr r2
         \<and> gaussian_elimination_mod hexagon_effects (map (\<lambda>v. v mod 3) b) 3 = Inr r3
         \<and> (case (r2, r3) of
               (Some x2, Some x3) \<Rightarrow>
                 (\<exists>x. press_counts ''expert'' 37 6 hexagon_effects b = Inr (Some x)
                    \<and> length x = 37
                    \<and> (\<forall>i<37. 0 \<le> x ! i \<and> x ! i \<le> 5
                           \<and> x ! i mod 2 = x2 ! i \<and> x ! i mod 3 = x3 ! i
                           \<and> (\<forall>k. 0 \<le> k \<and> k \<le> 5 \<and> k mod 2 = x2 ! i \<and> k mod 3 = x3 ! i
                                  \<longrightarrow> k = x ! i)))
             | _ \<Rightarrow> press_counts ''expert'' 37 6 hexagon_effects b = Inr None
                    \<and> solve initial_board ''expert'' = Inr None)"
proof -
  have lb: "length (map (\<lambda>v. v mod 2) b) = length hexagon_effects"
    "length (map (\<lambda>v. v mod 3) b) = length hexagon_effects"
    using len b by (simp_all add: hexagon_effects_length)
  from gem_no_raise [OF lb(1)] obtain r2 where
    r2: "gaussian_elimination_mod hexagon_effects (map (\<lambda>v. v mod 2) b) 2 = Inr r2" by blast
  from gem_no_raise [OF lb(2)] obtain r3 where
    r3: "gaussian_elimination_mod hexagon_effects (map (\<lambda>v. v mod 3) b) 3 = Inr r3" by blast
  have sol: "solve initial_board ''expert'' =
      (case press_counts ''expert'' 37 6 hexagon_effects b of
         Inl e \<Rightarrow> Inl e
       | Inr None \<Rightarrow> Inr None
       | Inr (Some x) \<Rightarrow>
          (case replay hexagon_adj_radius3 0 6 initial_flat (click_path Hexagon 0 x) of
             Inl e \<Rightarrow> Inl e
           | Inr steps \<Rightarrow> Inr (Some steps)))"
    using solve_hexagon [OF _ flat, of "''expert''"] b by simp
  show ?thesis
  proof (cases "r2 = None \<or> r3 = None")
    case True
    then have pc: "press_counts ''expert'' 37 6 hexagon_effects b = Inr None"
      using r2 r3 by (auto simp: press_counts_def split: option.splits)
    with sol have "solve initial_board ''expert'' = Inr None" by simp
    with pc r2 r3 True show ?thesis
      by (intro exI [of _ r2] exI [of _ r3]) (auto split: option.splits)
  next
    case False
    then obtain x2 x3 where s: "r2 = Some x2" "r3 = Some x3" by auto
    let ?x = "crt_combine 37 x2 x3"
    have pc: "press_counts ''expert'' 37 6 hexagon_effects b = Inr (Some ?x)"
      using r2 r3 s by (simp add: press_counts_def)
    have rng2: "\<forall>i<37. 0 \<le> x2 ! i \<and> x2 ! i < 2"
      using gem_result_range [of 2, OF _ r2 [unfolded s]] by (simp add: hexagon_effects_length)
    have rng3: "\<forall>i<37. 0 \<le> x3 ! i \<and> x3 ! i < 3"
      using gem_result_range [of 3, OF _ r3 [unfolded s]] by (simp add: hexagon_effects_length)
    have digits: "0 \<le> ?x ! i \<and> ?x ! i \<le> 5 \<and> ?x ! i mod 2 = x2 ! i \<and> ?x ! i mod 3 = x3 ! i
                  \<and> (\<forall>k. 0 \<le> k \<and> k \<le> 5 \<and> k mod 2 = x2 ! i \<and> k mod 3 = x3 ! i
                         \<longrightarrow> k = ?x ! i)"
      if i: "i < 37" for i
    proof -
      from rng2 rng3 i have r: "0 \<le> x2 ! i" "x2 ! i < 2" "0 \<le> x3 ! i" "x3 ! i < 3" by auto
      from crt_digit_residues [OF r] crt_combine_nth [OF i, of x2 x3]
      have d: "0 \<le> ?x ! i" "?x ! i \<le> 5" "?x ! i mod 2 = x2 ! i" "?x ! i mod 3 = x3 ! i"
        by auto
      have "k = ?x ! i"
        if "0 \<le> k \<and> k \<le> 5 \<and> k mod 2 = x2 ! i \<and> k mod 3 = x3 ! i" for k
        using residues_unique [of k "?x ! i"] that d by simp
      with d show ?thesis by blast
    qed
    have "\<exists>x. press_counts ''expert'' 37 6 hexagon_effects b = Inr (Some x)
            \<and> length x = 37
            \<and> (\<forall>i<37. 0 \<le> x ! i \<and> x ! i \<le> 5
                   \<and> x ! i mod 2 = x2 ! i \<and> x ! i mod 3 = x3 ! i
                   \<and> (\<forall>k. 0 \<le> k \<and> k \<le> 5 \<and> k mod 2 = x2 ! i \<and> k mod 3 = x3 ! i
                          \<longrightarrow> k = x ! i))"
      using pc digits crt_combine_length [of 37 x2 x3] by blast
    with r2 r3 s show ?thesis
      by (intro exI [of _ r2] exI [of _ r3]) simp
  qed
qed

section \<open>A solved expert board\<close>

lemma back_steps_fold: "back_steps m Ab cols x = fold (\<lambda>i x. back_step m Ab x i) cols x"
  by (induction cols arbitrary: x) simp_all

lemma back_substitution_steps:
  "back_substitution m n Ab = back_steps m Ab (rev [0 ..< n]) (replicate n 0)"
  by (simp add: back_substitution_def back_steps_fold)

lemma gem_eval:
  assumes "length b = length A"
    and "elimination m (length A) [0 ..< length A] (augment A b) = Some M"
    and "\<not> inconsistent M"
    and "back_steps m M (rev [0 ..< length A]) (replicate (length A) 0) = x"
  shows "gaussian_elimination_mod A b m = Inr (Some x)"
  using assms by (simp add: gaussian_elimination_mod_def back_substitution_steps)

lemma hexagon_elimination_ones_mod2:
  "elimination 2 37 [0 ..< 37] (augment hexagon_effects (replicate 37 1)) =
   Some
     [[1, 0, 0, 0, 0, 0, 0, 0, 0, 0, 0, 0, 0, 0, 0, 0, 0, 0, 0, 0, 0, 0, 0, 0, 0, 0, 0, 0,
     0, 0, 0, 0, 0, 0, 0, 0, 1, 0], [0, 1, 0, 0, 0, 0, 0, 0, 0, 0, 0, 0, 0, 0, 0, 0, 0, 0,
     0, 0, 0, 0, 0, 0, 0, 0, 0, 0, 0, 0, 0, 0, 0, 1, 1, 0, 1, 1], [0, 0, 1, 0, 0, 0, 0, 0,
     0, 0, 0, 0, 0, 0, 0, 0, 0, 0, 0, 0, 0, 0, 0, 0, 0, 0, 0, 0, 0, 0, 0, 0, 0, 1, 0, 1, 1,
     1], [0, 0, 0, 1, 0, 0, 0, 0, 0, 0, 0, 0, 0, 0, 0, 0, 0, 0, 0, 0, 0, 0, 0, 0, 0, 0, 0,
     0, 0, 0, 0, 0, 0, 1, 0, 0, 0, 0], [0, 0, 0, 0, 1, 0, 0, 0, 0, 0, 0, 0, 0, 0, 0, 0, 0,
     0, 0, 0, 0, 0, 0, 0, 0, 0, 0, 0, 0, 0, 0, 0, 0, 1, 1, 0, 1, 0], [0, 0, 0, 0, 0, 1, 0,
     0, 0, 0, 0, 0, 0, 0, 0, 0, 0, 0, 0, 0, 0, 0, 0, 0, 0, 0, 0, 0, 0, 0, 0, 0, 0, 0, 0, 0,
     1, 0], [0, 0, 0, 0, 0, 0, 1, 0, 0, 0, 0, 0, 0, 0, 0, 0, 0, 0, 0, 0, 0, 0, 0, 0, 0, 0,
     0, 0, 0, 0, 0, 0, 0, 0, 1, 1, 0, 1], [0, 0, 0, 0, 0, 0, 0, 1, 0, 0, 0, 0, 0, 0, 0, 0,
     0, 0, 0, 0, 0, 0, 0, 0, 0, 0, 0, 0, 0, 0, 0, 0, 0, 1, 0, 0, 0, 0], [0, 0, 0, 0, 0, 0,
     0, 0, 1, 0, 0, 0, 0, 0, 0, 0, 0, 0, 0, 0, 0, 0, 0, 0, 0, 0, 0, 0, 0, 0, 0, 0, 0, 1, 0,
     1, 1, 0], [0, 0, 0, 0, 0, 0, 0, 0, 0, 1, 0, 0, 0, 0, 0, 0, 0, 0, 0, 0, 0, 0, 0, 0, 0,
     0, 0, 0, 0, 0, 0, 0, 0, 1, 0, 1, 0, 0], [0, 0, 0, 0, 0, 0, 0, 0, 0, 0, 1, 0, 0, 0, 0,
     0, 0, 0, 0, 0, 0, 0, 0, 0, 0, 0, 0, 0, 0, 0, 0, 0, 0, 0, 1, 1, 1, 1], [0, 0, 0, 0, 0,
     0, 0, 0, 0, 0, 0, 1, 0, 0, 0, 0, 0, 0, 0, 0, 0, 0, 0, 0, 0, 0, 0, 0, 0, 0, 0, 0, 0, 0,
     0, 0, 1, 0], [0, 0, 0, 0, 0, 0, 0, 0, 0, 0, 0, 0, 1, 0, 0, 0, 0, 0, 0, 0, 0, 0, 0, 0,
     0, 0, 0, 0, 0, 0, 0, 0, 0, 1, 0, 0, 0, 0], [0, 0, 0, 0, 0, 0, 0, 0, 0, 0, 0, 0, 0, 1,
     0, 0, 0, 0, 0, 0, 0, 0, 0, 0, 0, 0, 0, 0, 0, 0, 0, 0, 0, 1, 1, 1, 0, 1], [0, 0, 0, 0,
     0, 0, 0, 0, 0, 0, 0, 0, 0, 0, 1, 0, 0, 0, 0, 0, 0, 0, 0, 0, 0, 0, 0, 0, 0, 0, 0, 0, 0,
     0, 1, 0, 1, 0], [0, 0, 0, 0, 0, 0, 0, 0, 0, 0, 0, 0, 0, 0, 0, 1, 0, 0, 0, 0, 0, 0, 0,
     0, 0, 0, 0, 0, 0, 0, 0, 0, 0, 1, 0, 0, 1, 0], [0, 0, 0, 0, 0, 0, 0, 0, 0, 0, 0, 0, 0,
     0, 0, 0, 1, 0, 0, 0, 0, 0, 0, 0, 0, 0, 0, 0, 0, 0, 0, 0, 0, 1, 0, 0, 1, 0], [0, 0, 0,
     0, 0, 0, 0, 0, 0, 0, 0, 0, 0, 0, 0, 0, 0, 1, 0, 0, 0, 0, 0, 0, 0, 0, 0, 0, 0, 0, 0, 0,
     0, 1, 0, 0, 1, 0], [0, 0, 0, 0, 0, 0, 0, 0, 0, 0, 0, 0, 0, 0, 0, 0, 0, 0, 1, 0, 0, 0,
     0, 0, 0, 0, 0, 0, 0, 0, 0, 0, 0, 0, 0, 0, 0, 1], [0, 0, 0, 0, 0, 0, 0, 0, 0, 0, 0, 0,
     0, 0, 0, 0, 0, 0, 0, 1, 0, 0, 0, 0, 0, 0, 0, 0, 0, 0, 0, 0, 0, 1, 0, 0, 1, 0], [0, 0,
     0, 0, 0, 0, 0, 0, 0, 0, 0, 0, 0, 0, 0, 0, 0, 0, 0, 0, 1, 0, 0, 0, 0, 0, 0, 0, 0, 0, 0,
     0, 0, 1, 0, 0, 1, 0], [0, 0, 0, 0, 0, 0, 0, 0, 0, 0, 0, 0, 0, 0, 0, 0, 0, 0, 0, 0, 0,
     1, 0, 0, 0, 0, 0, 0, 0, 0, 0, 0, 0, 1, 0, 0, 1, 0], [0, 0, 0, 0, 0, 0, 0, 0, 0, 0, 0,
     0, 0, 0, 0, 0, 0, 0, 0, 0, 0, 0, 1, 0, 0, 0, 0, 0, 0, 0, 0, 0, 0, 1, 0, 1, 0, 1], [0,
     0, 0, 0, 0, 0, 0, 0, 0, 0, 0, 0, 0, 0, 0, 0, 0, 0, 0, 0, 0, 0, 0, 1, 0, 0, 0, 0, 0, 0,
     0, 0, 0, 1, 1, 1, 0, 1], [0, 0, 0, 0, 0, 0, 0, 0, 0, 0, 0, 0, 0, 0, 0, 0, 0, 0, 0, 0,
     0, 0, 0, 0, 1, 0, 0, 0, 0, 0, 0, 0, 0, 1, 0, 0, 0, 0], [0, 0, 0, 0, 0, 0, 0, 0, 0, 0,
     0, 0, 0, 0, 0, 0, 0, 0, 0, 0, 0, 0, 0, 0, 0, 1, 0, 0, 0, 0, 0, 0, 0, 0, 0, 0, 1, 0],
     [0, 0, 0, 0, 0, 0, 0, 0, 0, 0, 0, 0, 0, 0, 0, 0, 0, 0, 0, 0, 0, 0, 0, 0, 0, 0, 1, 0, 0,
     0, 0, 0, 0, 0, 1, 1, 1, 1], [0, 0, 0, 0, 0, 0, 0, 0, 0, 0, 0, 0, 0, 0, 0, 0, 0, 0, 0,
     0, 0, 0, 0, 0, 0, 0, 0, 1, 0, 0, 0, 0, 0, 0, 1, 0, 1, 1], [0, 0, 0, 0, 0, 0, 0, 0, 0,
     0, 0, 0, 0, 0, 0, 0, 0, 0, 0, 0, 0, 0, 0, 0, 0, 0, 0, 0, 1, 0, 0, 0, 0, 0, 1, 0, 0, 1],
     [0, 0, 0, 0, 0, 0, 0, 0, 0, 0, 0, 0, 0, 0, 0, 0, 0, 0, 0, 0, 0, 0, 0, 0, 0, 0, 0, 0, 0,
     1, 0, 0, 0, 1, 0, 0, 0, 0], [0, 0, 0, 0, 0, 0, 0, 0, 0, 0, 0, 0, 0, 0, 0, 0, 0, 0, 0,
     0, 0, 0, 0, 0, 0, 0, 0, 0, 0, 0, 1, 0, 0, 0, 1, 1, 0, 1], [0, 0, 0, 0, 0, 0, 0, 0, 0,
     0, 0, 0, 0, 0, 0, 0, 0, 0, 0, 0, 0, 0, 0, 0, 0, 0, 0, 0, 0, 0, 0, 1, 0, 0, 0, 0, 1, 0],
     [0, 0, 0, 0, 0, 0, 0, 0, 0, 0, 0, 0, 0, 0, 0, 0, 0, 0, 0, 0, 0, 0, 0, 0, 0, 0, 0, 0, 0,
     0, 0, 0, 1, 0, 0, 1, 0, 1], [0, 0, 0, 0, 0, 0, 0, 0, 0, 0, 0, 0, 0, 0, 0, 0, 0, 0, 0,
     0, 0, 0, 0, 0, 0, 0, 0, 0, 0, 0, 0, 0, 0, 0, 0, 0, 0, 0], [0, 0, 0, 0, 0, 0, 0, 0, 0,
     0, 0, 0, 0, 0, 0, 0, 0, 0, 0, 0, 0, 0, 0, 0, 0, 0, 0, 0, 0, 0, 0, 0, 0, 0, 0, 0, 0, 0],
     [0, 0, 0, 0, 0, 0, 0, 0, 0, 0, 0, 0, 0, 0, 0, 0, 0, 0, 0, 0, 0, 0, 0, 0, 0, 0, 0, 0, 0,
     0, 0, 0, 0, 0, 0, 0, 0, 0], [0, 0, 0, 0, 0, 0, 0, 0, 0, 0, 0, 0, 0, 0, 0, 0, 0, 0, 0,
     0, 0, 0, 0, 0, 0, 0, 0, 0, 0, 0, 0, 0, 0, 0, 0, 0, 0, 0]]"
  by code_simp

lemma gem_hexagon_ones_mod2:
  "gaussian_elimination_mod hexagon_effects (replicate 37 1) 2 =
   Inr (Some
     [0, 1, 1, 0, 0, 0, 1, 0, 0, 0, 1, 0, 0, 1, 0, 0, 0, 0, 1, 0, 0, 0, 1, 1, 0, 0, 1, 1, 1,
     0, 1, 0, 1, 0, 0, 0, 0])"
proof -
  define M :: matrix where "M =
     [[1, 0, 0, 0, 0, 0, 0, 0, 0, 0, 0, 0, 0, 0, 0, 0, 0, 0, 0, 0, 0, 0, 0, 0, 0, 0, 0, 0,
     0, 0, 0, 0, 0, 0, 0, 0, 1, 0], [0, 1, 0, 0, 0, 0, 0, 0, 0, 0, 0, 0, 0, 0, 0, 0, 0, 0,
     0, 0, 0, 0, 0, 0, 0, 0, 0, 0, 0, 0, 0, 0, 0, 1, 1, 0, 1, 1], [0, 0, 1, 0, 0, 0, 0, 0,
     0, 0, 0, 0, 0, 0, 0, 0, 0, 0, 0, 0, 0, 0, 0, 0, 0, 0, 0, 0, 0, 0, 0, 0, 0, 1, 0, 1, 1,
     1], [0, 0, 0, 1, 0, 0, 0, 0, 0, 0, 0, 0, 0, 0, 0, 0, 0, 0, 0, 0, 0, 0, 0, 0, 0, 0, 0,
     0, 0, 0, 0, 0, 0, 1, 0, 0, 0, 0], [0, 0, 0, 0, 1, 0, 0, 0, 0, 0, 0, 0, 0, 0, 0, 0, 0,
     0, 0, 0, 0, 0, 0, 0, 0, 0, 0, 0, 0, 0, 0, 0, 0, 1, 1, 0, 1, 0], [0, 0, 0, 0, 0, 1, 0,
     0, 0, 0, 0, 0, 0, 0, 0, 0, 0, 0, 0, 0, 0, 0, 0, 0, 0, 0, 0, 0, 0, 0, 0, 0, 0, 0, 0, 0,
     1, 0], [0, 0, 0, 0, 0, 0, 1, 0, 0, 0, 0, 0, 0, 0, 0, 0, 0, 0, 0, 0, 0, 0, 0, 0, 0, 0,
     0, 0, 0, 0, 0, 0, 0, 0, 1, 1, 0, 1], [0, 0, 0, 0, 0, 0, 0, 1, 0, 0, 0, 0, 0, 0, 0, 0,
     0, 0, 0, 0, 0, 0, 0, 0, 0, 0, 0, 0, 0, 0, 0, 0, 0, 1, 0, 0, 0, 0], [0, 0, 0, 0, 0, 0,
     0, 0, 1, 0, 0, 0, 0, 0, 0, 0, 0, 0, 0, 0, 0, 0, 0, 0, 0, 0, 0, 0, 0, 0, 0, 0, 0, 1, 0,
     1, 1, 0], [0, 0, 0, 0, 0, 0, 0, 0, 0, 1, 0, 0, 0, 0, 0, 0, 0, 0, 0, 0, 0, 0, 0, 0, 0,
     0, 0, 0, 0, 0, 0, 0, 0, 1, 0, 1, 0, 0], [0, 0, 0, 0, 0, 0, 0, 0, 0, 0, 1, 0, 0, 0, 0,
     0, 0, 0, 0, 0, 0, 0, 0, 0, 0, 0, 0, 0, 0, 0, 0, 0, 0, 0, 1, 1, 1, 1], [0, 0, 0, 0, 0,
     0, 0, 0, 0, 0, 0, 1, 0, 0, 0, 0, 0, 0, 0, 0, 0, 0, 0, 0, 0, 0, 0, 0, 0, 0, 0, 0, 0, 0,
     0, 0, 1, 0], [0, 0, 0, 0, 0, 0, 0, 0, 0, 0, 0, 0, 1, 0, 0, 0, 0, 0, 0, 0, 0, 0, 0, 0,
     0, 0, 0, 0, 0, 0, 0, 0, 0, 1, 0, 0, 0, 0], [0, 0, 0, 0, 0, 0, 0, 0, 0, 0, 0, 0, 0, 1,
     0, 0, 0, 0, 0, 0, 0, 0, 0, 0, 0, 0, 0, 0, 0, 0, 0, 0, 0, 1, 1, 1, 0, 1], [0, 0, 0, 0,
     0, 0, 0, 0, 0, 0, 0, 0, 0, 0, 1, 0, 0, 0, 0, 0, 0, 0, 0, 0, 0, 0, 0, 0, 0, 0, 0, 0, 0,
     0, 1, 0, 1, 0], [0, 0, 0, 0, 0, 0, 0, 0, 0, 0, 0, 0, 0, 0, 0, 1, 0, 0, 0, 0, 0, 0, 0,
     0, 0, 0, 0, 0, 0, 0, 0, 0, 0, 1, 0, 0, 1, 0], [0, 0, 0, 0, 0, 0, 0, 0, 0, 0, 0, 0, 0,
     0, 0, 0, 1, 0, 0, 0, 0, 0, 0, 0, 0, 0, 0, 0, 0, 0, 0, 0, 0, 1, 0, 0, 1, 0], [0, 0, 0,
     0, 0, 0, 0, 0, 0, 0, 0, 0, 0, 0, 0, 0, 0, 1, 0, 0, 0, 0, 0, 0, 0, 0, 0, 0, 0, 0, 0, 0,
     0, 1, 0, 0, 1, 0], [0, 0, 0, 0, 0, 0, 0, 0, 0, 0, 0, 0, 0, 0, 0, 0, 0, 0, 1, 0, 0, 0,
     0, 0, 0, 0, 0, 0, 0, 0, 0, 0, 0, 0, 0, 0, 0, 1], [0, 0, 0, 0, 0, 0, 0, 0, 0, 0, 0, 0,
     0, 0, 0, 0, 0, 0, 0, 1, 0, 0, 0, 0, 0, 0, 0, 0, 0, 0, 0, 0, 0, 1, 0, 0, 1, 0], [0, 0,
     0, 0, 0, 0, 0, 0, 0, 0, 0, 0, 0, 0, 0, 0, 0, 0, 0, 0, 1, 0, 0, 0, 0, 0, 0, 0, 0, 0, 0,
     0, 0, 1, 0, 0, 1, 0], [0, 0, 0, 0, 0, 0, 0, 0, 0, 0, 0, 0, 0, 0, 0, 0, 0, 0, 0, 0, 0,
     1, 0, 0, 0, 0, 0, 0, 0, 0, 0, 0, 0, 1, 0, 0, 1, 0], [0, 0, 0, 0, 0, 0, 0, 0, 0, 0, 0,
     0, 0, 0, 0, 0, 0, 0, 0, 0, 0, 0, 1, 0, 0, 0, 0, 0, 0, 0, 0, 0, 0, 1, 0, 1, 0, 1], [0,
     0, 0, 0, 0, 0, 0, 0, 0, 0, 0, 0, 0, 0, 0, 0, 0, 0, 0, 0, 0, 0, 0, 1, 0, 0, 0, 0, 0, 0,
     0, 0, 0, 1, 1, 1, 0, 1], [0, 0, 0, 0, 0, 0, 0, 0, 0, 0, 0, 0, 0, 0, 0, 0, 0, 0, 0, 0,
     0, 0, 0, 0, 1, 0, 0, 0, 0, 0, 0, 0, 0, 1, 0, 0, 0, 0], [0, 0, 0, 0, 0, 0, 0, 0, 0, 0,
     0, 0, 0, 0, 0, 0, 0, 0, 0, 0, 0, 0, 0, 0, 0, 1, 0, 0, 0, 0, 0, 0, 0, 0, 0, 0, 1, 0],
     [0, 0, 0, 0, 0, 0, 0, 0, 0, 0, 0, 0, 0, 0, 0, 0, 0, 0, 0, 0, 0, 0, 0, 0, 0, 0, 1, 0, 0,
     0, 0, 0, 0, 0, 1, 1, 1, 1], [0, 0, 0, 0, 0, 0, 0, 0, 0, 0, 0, 0, 0, 0, 0, 0, 0, 0, 0,
     0, 0, 0, 0, 0, 0, 0, 0, 1, 0, 0, 0, 0, 0, 0, 1, 0, 1, 1], [0, 0, 0, 0, 0, 0, 0, 0, 0,
     0, 0, 0, 0, 0, 0, 0, 0, 0, 0, 0, 0, 0, 0, 0, 0, 0, 0, 0, 1, 0, 0, 0, 0, 0, 1, 0, 0, 1],
     [0, 0, 0, 0, 0, 0, 0, 0, 0, 0, 0, 0, 0, 0, 0, 0, 0, 0, 0, 0, 0, 0, 0, 0, 0, 0, 0, 0, 0,
     1, 0, 0, 0, 1, 0, 0, 0, 0], [0, 0, 0, 0, 0, 0, 0, 0, 0, 0, 0, 0, 0, 0, 0, 0, 0, 0, 0,
     0, 0, 0, 0, 0, 0, 0, 0, 0, 0, 0, 1, 0, 0, 0, 1, 1, 0, 1], [0, 0, 0, 0, 0, 0, 0, 0, 0,
     0, 0, 0, 0, 0, 0, 0, 0, 0, 0, 0, 0, 0, 0, 0, 0, 0, 0, 0, 0, 0, 0, 1, 0, 0, 0, 0, 1, 0],
     [0, 0, 0, 0, 0, 0, 0, 0, 0, 0, 0, 0, 0, 0, 0, 0, 0, 0, 0, 0, 0, 0, 0, 0, 0, 0, 0, 0, 0,
     0, 0, 0, 1, 0, 0, 1, 0, 1], [0, 0, 0, 0, 0, 0, 0, 0, 0, 0, 0, 0, 0, 0, 0, 0, 0, 0, 0,
     0, 0, 0, 0, 0, 0, 0, 0, 0, 0, 0, 0, 0, 0, 0, 0, 0, 0, 0], [0, 0, 0, 0, 0, 0, 0, 0, 0,
     0, 0, 0, 0, 0, 0, 0, 0, 0, 0, 0, 0, 0, 0, 0, 0, 0, 0, 0, 0, 0, 0, 0, 0, 0, 0, 0, 0, 0],
     [0, 0, 0, 0, 0, 0, 0, 0, 0, 0, 0, 0, 0, 0, 0, 0, 0, 0, 0, 0, 0, 0, 0, 0, 0, 0, 0, 0, 0,
     0, 0, 0, 0, 0, 0, 0, 0, 0], [0, 0, 0, 0, 0, 0, 0, 0, 0, 0, 0, 0, 0, 0, 0, 0, 0, 0, 0,
     0, 0, 0, 0, 0, 0, 0, 0, 0, 0, 0, 0, 0, 0, 0, 0, 0, 0, 0]]"
  have len: "length (replicate 37 (1::int)) = 37"
    by simp
  have el: "elimination 2 37 [0 ..< 37] (augment hexagon_effects (replicate 37 1)) = Some M"
    unfolding M_def by (rule hexagon_elimination_ones_mod2)
  have inc: "\<not> inconsistent M"
    unfolding M_def by code_simp
  have bs: "back_steps 2 M (rev [0 ..< 37]) (replicate 37 0) =
     [0, 1, 1, 0, 0, 0, 1, 0, 0, 0, 1, 0, 0, 1, 0, 0, 0, 0, 1, 0, 0, 0, 1, 1, 0, 0, 1, 1, 1,
     0, 1, 0, 1, 0, 0, 0, 0]"
    unfolding M_def by code_simp
  show ?thesis
    by (rule gem_eval [of "replicate 37 1" hexagon_effects 2, unfolded hexagon_effects_length,
          OF len el inc bs])
qed

lemma hexagon_elimination_ones_mod3:
  "elimination 3 37 [0 ..< 37] (augment hexagon_effects (replicate 37 1)) =
   Some
     [[1, 0, 0, 0, 0, 0, 0, 0, 0, 0, 0, 0, 0, 0, 0, 0, 0, 0, 0, 0, 0, 0, 0, 0, 0, 0, 0, 0,
     0, 0, 0, 0, 0, 0, 0, 0, 1, 0], [0, 1, 0, 0, 0, 0, 0, 0, 0, 0, 0, 0, 0, 0, 0, 0, 0, 0,
     0, 0, 0, 0, 0, 0, 0, 0, 0, 0, 0, 0, 0, 0, 1, 1, 1, 1, 2, 2], [0, 0, 1, 0, 0, 0, 0, 0,
     0, 0, 0, 0, 0, 0, 0, 0, 0, 0, 0, 0, 0, 0, 0, 0, 0, 0, 0, 0, 0, 0, 0, 0, 1, 2, 0, 2, 1,
     2], [0, 0, 0, 1, 0, 0, 0, 0, 0, 0, 0, 0, 0, 0, 0, 0, 0, 0, 0, 0, 0, 0, 0, 0, 0, 0, 0,
     0, 0, 0, 0, 0, 0, 1, 0, 0, 0, 0], [0, 0, 0, 0, 1, 0, 0, 0, 0, 0, 0, 0, 0, 0, 0, 0, 0,
     0, 0, 0, 0, 0, 0, 0, 0, 0, 0, 0, 0, 0, 0, 0, 1, 2, 2, 1, 1, 1], [0, 0, 0, 0, 0, 1, 0,
     0, 0, 0, 0, 0, 0, 0, 0, 0, 0, 0, 0, 0, 0, 0, 0, 0, 0, 0, 0, 0, 0, 0, 0, 0, 1, 0, 0, 1,
     2, 1], [0, 0, 0, 0, 0, 0, 1, 0, 0, 0, 0, 0, 0, 0, 0, 0, 0, 0, 0, 0, 0, 0, 0, 0, 0, 0,
     0, 0, 0, 0, 0, 0, 0, 0, 2, 2, 0, 2], [0, 0, 0, 0, 0, 0, 0, 1, 0, 0, 0, 0, 0, 0, 0, 0,
     0, 0, 0, 0, 0, 0, 0, 0, 0, 0, 0, 0, 0, 0, 0, 0, 1, 2, 0, 1, 0, 1], [0, 0, 0, 0, 0, 0,
     0, 0, 1, 0, 0, 0, 0, 0, 0, 0, 0, 0, 0, 0, 0, 0, 0, 0, 0, 0, 0, 0, 0, 0, 0, 0, 1, 1, 0,
     0, 2, 1], [0, 0, 0, 0, 0, 0, 0, 0, 0, 1, 0, 0, 0, 0, 0, 0, 0, 0, 0, 0, 0, 0, 0, 0, 0,
     0, 0, 0, 0, 0, 0, 0, 2, 1, 0, 1, 0, 2], [0, 0, 0, 0, 0, 0, 0, 0, 0, 0, 1, 0, 0, 0, 0,
     0, 0, 0, 0, 0, 0, 0, 0, 0, 0, 0, 0, 0, 0, 0, 0, 0, 2, 0, 1, 0, 2, 0], [0, 0, 0, 0, 0,
     0, 0, 0, 0, 0, 0, 1, 0, 0, 0, 0, 0, 0, 0, 0, 0, 0, 0, 0, 0, 0, 0, 0, 0, 0, 0, 0, 1, 0,
     0, 1, 1, 1], [0, 0, 0, 0, 0, 0, 0, 0, 0, 0, 0, 0, 1, 0, 0, 0, 0, 0, 0, 0, 0, 0, 0, 0,
     0, 0, 0, 0, 0, 0, 0, 0, 1, 1, 0, 1, 0, 1], [0, 0, 0, 0, 0, 0, 0, 0, 0, 0, 0, 0, 0, 1,
     0, 0, 0, 0, 0, 0, 0, 0, 0, 0, 0, 0, 0, 0, 0, 0, 0, 0, 2, 2, 1, 0, 0, 0], [0, 0, 0, 0,
     0, 0, 0, 0, 0, 0, 0, 0, 0, 0, 1, 0, 0, 0, 0, 0, 0, 0, 0, 0, 0, 0, 0, 0, 0, 0, 0, 0, 2,
     0, 2, 2, 1, 2], [0, 0, 0, 0, 0, 0, 0, 0, 0, 0, 0, 0, 0, 0, 0, 1, 0, 0, 0, 0, 0, 0, 0,
     0, 0, 0, 0, 0, 0, 0, 0, 0, 0, 2, 0, 0, 1, 0], [0, 0, 0, 0, 0, 0, 0, 0, 0, 0, 0, 0, 0,
     0, 0, 0, 1, 0, 0, 0, 0, 0, 0, 0, 0, 0, 0, 0, 0, 0, 0, 0, 1, 1, 0, 1, 2, 1], [0, 0, 0,
     0, 0, 0, 0, 0, 0, 0, 0, 0, 0, 0, 0, 0, 0, 1, 0, 0, 0, 0, 0, 0, 0, 0, 0, 0, 0, 0, 0, 0,
     1, 2, 0, 1, 1, 1], [0, 0, 0, 0, 0, 0, 0, 0, 0, 0, 0, 0, 0, 0, 0, 0, 0, 0, 1, 0, 0, 0,
     0, 0, 0, 0, 0, 0, 0, 0, 0, 0, 0, 0, 0, 0, 0, 1], [0, 0, 0, 0, 0, 0, 0, 0, 0, 0, 0, 0,
     0, 0, 0, 0, 0, 0, 0, 1, 0, 0, 0, 0, 0, 0, 0, 0, 0, 0, 0, 0, 1, 1, 0, 1, 2, 1], [0, 0,
     0, 0, 0, 0, 0, 0, 0, 0, 0, 0, 0, 0, 0, 0, 0, 0, 0, 0, 1, 0, 0, 0, 0, 0, 0, 0, 0, 0, 0,
     0, 1, 2, 0, 1, 1, 1], [0, 0, 0, 0, 0, 0, 0, 0, 0, 0, 0, 0, 0, 0, 0, 0, 0, 0, 0, 0, 0,
     1, 0, 0, 0, 0, 0, 0, 0, 0, 0, 0, 0, 1, 0, 0, 2, 0], [0, 0, 0, 0, 0, 0, 0, 0, 0, 0, 0,
     0, 0, 0, 0, 0, 0, 0, 0, 0, 0, 0, 1, 0, 0, 0, 0, 0, 0, 0, 0, 0, 0, 2, 0, 1, 0, 1], [0,
     0, 0, 0, 0, 0, 0, 0, 0, 0, 0, 0, 0, 0, 0, 0, 0, 0, 0, 0, 0, 0, 0, 1, 0, 0, 0, 0, 0, 0,
     0, 0, 0, 1, 2, 2, 0, 2], [0, 0, 0, 0, 0, 0, 0, 0, 0, 0, 0, 0, 0, 0, 0, 0, 0, 0, 0, 0,
     0, 0, 0, 0, 1, 0, 0, 0, 0, 0, 0, 0, 1, 2, 0, 1, 0, 1], [0, 0, 0, 0, 0, 0, 0, 0, 0, 0,
     0, 0, 0, 0, 0, 0, 0, 0, 0, 0, 0, 0, 0, 0, 0, 1, 0, 0, 0, 0, 0, 0, 1, 0, 0, 1, 2, 1],
     [0, 0, 0, 0, 0, 0, 0, 0, 0, 0, 0, 0, 0, 0, 0, 0, 0, 0, 0, 0, 0, 0, 0, 0, 0, 0, 1, 0, 0,
     0, 0, 0, 0, 0, 2, 2, 1, 2], [0, 0, 0, 0, 0, 0, 0, 0, 0, 0, 0, 0, 0, 0, 0, 0, 0, 0, 0,
     0, 0, 0, 0, 0, 0, 0, 0, 1, 0, 0, 0, 0, 0, 0, 1, 0, 2, 1], [0, 0, 0, 0, 0, 0, 0, 0, 0,
     0, 0, 0, 0, 0, 0, 0, 0, 0, 0, 0, 0, 0, 0, 0, 0, 0, 0, 0, 1, 0, 0, 0, 2, 0, 1, 2, 0, 0],
     [0, 0, 0, 0, 0, 0, 0, 0, 0, 0, 0, 0, 0, 0, 0, 0, 0, 0, 0, 0, 0, 0, 0, 0, 0, 0, 0, 0, 0,
     1, 0, 0, 1, 1, 0, 1, 0, 1], [0, 0, 0, 0, 0, 0, 0, 0, 0, 0, 0, 0, 0, 0, 0, 0, 0, 0, 0,
     0, 0, 0, 0, 0, 0, 0, 0, 0, 0, 0, 1, 0, 2, 0, 1, 0, 0, 0], [0, 0, 0, 0, 0, 0, 0, 0, 0,
     0, 0, 0, 0, 0, 0, 0, 0, 0, 0, 0, 0, 0, 0, 0, 0, 0, 0, 0, 0, 0, 0, 1, 1, 0, 0, 1, 1, 1],
     [0, 0, 0, 0, 0, 0, 0, 0, 0, 0, 0, 0, 0, 0, 0, 0, 0, 0, 0, 0, 0, 0, 0, 0, 0, 0, 0, 0, 0,
     0, 0, 0, 0, 0, 0, 0, 0, 0], [0, 0, 0, 0, 0, 0, 0, 0, 0, 0, 0, 0, 0, 0, 0, 0, 0, 0, 0,
     0, 0, 0, 0, 0, 0, 0, 0, 0, 0, 0, 0, 0, 0, 0, 0, 0, 0, 0], [0, 0, 0, 0, 0, 0, 0, 0, 0,
     0, 0, 0, 0, 0, 0, 0, 0, 0, 0, 0, 0, 0, 0, 0, 0, 0, 0, 0, 0, 0, 0, 0, 0, 0, 0, 0, 0, 0],
     [0, 0, 0, 0, 0, 0, 0, 0, 0, 0, 0, 0, 0, 0, 0, 0, 0, 0, 0, 0, 0, 0, 0, 0, 0, 0, 0, 0, 0,
     0, 0, 0, 0, 0, 0, 0, 0, 0], [0, 0, 0, 0, 0, 0, 0, 0, 0, 0, 0, 0, 0, 0, 0, 0, 0, 0, 0,
     0, 0, 0, 0, 0, 0, 0, 0, 0, 0, 0, 0, 0, 0, 0, 0, 0, 0, 0]]"
  by code_simp

lemma gem_hexagon_ones_mod3:
  "gaussian_elimination_mod hexagon_effects (replicate 37 1) 3 =
   Inr (Some
     [0, 2, 2, 0, 1, 1, 2, 1, 1, 2, 0, 1, 1, 0, 2, 0, 1, 1, 1, 1, 1, 0, 1, 2, 1, 1, 2, 1, 0,
     1, 0, 1, 0, 0, 0, 0, 0])"
proof -
  define M :: matrix where "M =
     [[1, 0, 0, 0, 0, 0, 0, 0, 0, 0, 0, 0, 0, 0, 0, 0, 0, 0, 0, 0, 0, 0, 0, 0, 0, 0, 0, 0,
     0, 0, 0, 0, 0, 0, 0, 0, 1, 0], [0, 1, 0, 0, 0, 0, 0, 0, 0, 0, 0, 0, 0, 0, 0, 0, 0, 0,
     0, 0, 0, 0, 0, 0, 0, 0, 0, 0, 0, 0, 0, 0, 1, 1, 1, 1, 2, 2], [0, 0, 1, 0, 0, 0, 0, 0,
     0, 0, 0, 0, 0, 0, 0, 0, 0, 0, 0, 0, 0, 0, 0, 0, 0, 0, 0, 0, 0, 0, 0, 0, 1, 2, 0, 2, 1,
     2], [0, 0, 0, 1, 0, 0, 0, 0, 0, 0, 0, 0, 0, 0, 0, 0, 0, 0, 0, 0, 0, 0, 0, 0, 0, 0, 0,
     0, 0, 0, 0, 0, 0, 1, 0, 0, 0, 0], [0, 0, 0, 0, 1, 0, 0, 0, 0, 0, 0, 0, 0, 0, 0, 0, 0,
     0, 0, 0, 0, 0, 0, 0, 0, 0, 0, 0, 0, 0, 0, 0, 1, 2, 2, 1, 1, 1], [0, 0, 0, 0, 0, 1, 0,
     0, 0, 0, 0, 0, 0, 0, 0, 0, 0, 0, 0, 0, 0, 0, 0, 0, 0, 0, 0, 0, 0, 0, 0, 0, 1, 0, 0, 1,
     2, 1], [0, 0, 0, 0, 0, 0, 1, 0, 0, 0, 0, 0, 0, 0, 0, 0, 0, 0, 0, 0, 0, 0, 0, 0, 0, 0,
     0, 0, 0, 0, 0, 0, 0, 0, 2, 2, 0, 2], [0, 0, 0, 0, 0, 0, 0, 1, 0, 0, 0, 0, 0, 0, 0, 0,
     0, 0, 0, 0, 0, 0, 0, 0, 0, 0, 0, 0, 0, 0, 0, 0, 1, 2, 0, 1, 0, 1], [0, 0, 0, 0, 0, 0,
     0, 0, 1, 0, 0, 0, 0, 0, 0, 0, 0, 0, 0, 0, 0, 0, 0, 0, 0, 0, 0, 0, 0, 0, 0, 0, 1, 1, 0,
     0, 2, 1], [0, 0, 0, 0, 0, 0, 0, 0, 0, 1, 0, 0, 0, 0, 0, 0, 0, 0, 0, 0, 0, 0, 0, 0, 0,
     0, 0, 0, 0, 0, 0, 0, 2, 1, 0, 1, 0, 2], [0, 0, 0, 0, 0, 0, 0, 0, 0, 0, 1, 0, 0, 0, 0,
     0, 0, 0, 0, 0, 0, 0, 0, 0, 0, 0, 0, 0, 0, 0, 0, 0, 2, 0, 1, 0, 2, 0], [0, 0, 0, 0, 0,
     0, 0, 0, 0, 0, 0, 1, 0, 0, 0, 0, 0, 0, 0, 0, 0, 0, 0, 0, 0, 0, 0, 0, 0, 0, 0, 0, 1, 0,
     0, 1, 1, 1], [0, 0, 0, 0, 0, 0, 0, 0, 0, 0, 0, 0, 1, 0, 0, 0, 0, 0, 0, 0, 0, 0, 0, 0,
     0, 0, 0, 0, 0, 0, 0, 0, 1, 1, 0, 1, 0, 1], [0, 0, 0, 0, 0, 0, 0, 0, 0, 0, 0, 0, 0, 1,
     0, 0, 0, 0, 0, 0, 0, 0, 0, 0, 0, 0, 0, 0, 0, 0, 0, 0, 2, 2, 1, 0, 0, 0], [0, 0, 0, 0,
     0, 0, 0, 0, 0, 0, 0, 0, 0, 0, 1, 0, 0, 0, 0, 0, 0, 0, 0, 0, 0, 0, 0, 0, 0, 0, 0, 0, 2,
     0, 2, 2, 1, 2], [0, 0, 0, 0, 0, 0, 0, 0, 0, 0, 0, 0, 0, 0, 0, 1, 0, 0, 0, 0, 0, 0, 0,
     0, 0, 0, 0, 0, 0, 0, 0, 0, 0, 2, 0, 0, 1, 0], [0, 0, 0, 0, 0, 0, 0, 0, 0, 0, 0, 0, 0,
     0, 0, 0, 1, 0, 0, 0, 0, 0, 0, 0, 0, 0, 0, 0, 0, 0, 0, 0, 1, 1, 0, 1, 2, 1], [0, 0, 0,
     0, 0, 0, 0, 0, 0, 0, 0, 0, 0, 0, 0, 0, 0, 1, 0, 0, 0, 0, 0, 0, 0, 0, 0, 0, 0, 0, 0, 0,
     1, 2, 0, 1, 1, 1], [0, 0, 0, 0, 0, 0, 0, 0, 0, 0, 0, 0, 0, 0, 0, 0, 0, 0, 1, 0, 0, 0,
     0, 0, 0, 0, 0, 0, 0, 0, 0, 0, 0, 0, 0, 0, 0, 1], [0, 0, 0, 0, 0, 0, 0, 0, 0, 0, 0, 0,
     0, 0, 0, 0, 0, 0, 0, 1, 0, 0, 0, 0, 0, 0, 0, 0, 0, 0, 0, 0, 1, 1, 0, 1, 2, 1], [0, 0,
     0, 0, 0, 0, 0, 0, 0, 0, 0, 0, 0, 0, 0, 0, 0, 0, 0, 0, 1, 0, 0, 0, 0, 0, 0, 0, 0, 0, 0,
     0, 1, 2, 0, 1, 1, 1], [0, 0, 0, 0, 0, 0, 0, 0, 0, 0, 0, 0, 0, 0, 0, 0, 0, 0, 0, 0, 0,
     1, 0, 0, 0, 0, 0, 0, 0, 0, 0, 0, 0, 1, 0, 0, 2, 0], [0, 0, 0, 0, 0, 0, 0, 0, 0, 0, 0,
     0, 0, 0, 0, 0, 0, 0, 0, 0, 0, 0, 1, 0, 0, 0, 0, 0, 0, 0, 0, 0, 0, 2, 0, 1, 0, 1], [0,
     0, 0, 0, 0, 0, 0, 0, 0, 0, 0, 0, 0, 0, 0, 0, 0, 0, 0, 0, 0, 0, 0, 1, 0, 0, 0, 0, 0, 0,
     0, 0, 0, 1, 2, 2, 0, 2], [0, 0, 0, 0, 0, 0, 0, 0, 0, 0, 0, 0, 0, 0, 0, 0, 0, 0, 0, 0,
     0, 0, 0, 0, 1, 0, 0, 0, 0, 0, 0, 0, 1, 2, 0, 1, 0, 1], [0, 0, 0, 0, 0, 0, 0, 0, 0, 0,
     0, 0, 0, 0, 0, 0, 0, 0, 0, 0, 0, 0, 0, 0, 0, 1, 0, 0, 0, 0, 0, 0, 1, 0, 0, 1, 2, 1],
     [0, 0, 0, 0, 0, 0, 0, 0, 0, 0, 0, 0, 0, 0, 0, 0, 0, 0, 0, 0, 0, 0, 0, 0, 0, 0, 1, 0, 0,
     0, 0, 0, 0, 0, 2, 2, 1, 2], [0, 0, 0, 0, 0, 0, 0, 0, 0, 0, 0, 0, 0, 0, 0, 0, 0, 0, 0,
     0, 0, 0, 0, 0, 0, 0, 0, 1, 0, 0, 0, 0, 0, 0, 1, 0, 2, 1], [0, 0, 0, 0, 0, 0, 0, 0, 0,
     0, 0, 0, 0, 0, 0, 0, 0, 0, 0, 0, 0, 0, 0, 0, 0, 0, 0, 0, 1, 0, 0, 0, 2, 0, 1, 2, 0, 0],
     [0, 0, 0, 0, 0, 0, 0, 0, 0, 0, 0, 0, 0, 0, 0, 0, 0, 0, 0, 0, 0, 0, 0, 0, 0, 0, 0, 0, 0,
     1, 0, 0, 1, 1, 0, 1, 0, 1], [0, 0, 0, 0, 0, 0, 0, 0, 0, 0, 0, 0, 0, 0, 0, 0, 0, 0, 0,
     0, 0, 0, 0, 0, 0, 0, 0, 0, 0, 0, 1, 0, 2, 0, 1, 0, 0, 0], [0, 0, 0, 0, 0, 0, 0, 0, 0,
     0, 0, 0, 0, 0, 0, 0, 0, 0, 0, 0, 0, 0, 0, 0, 0, 0, 0, 0, 0, 0, 0, 1, 1, 0, 0, 1, 1, 1],
     [0, 0, 0, 0, 0, 0, 0, 0, 0, 0, 0, 0, 0, 0, 0, 0, 0, 0, 0, 0, 0, 0, 0, 0, 0, 0, 0, 0, 0,
     0, 0, 0, 0, 0, 0, 0, 0, 0], [0, 0, 0, 0, 0, 0, 0, 0, 0, 0, 0, 0, 0, 0, 0, 0, 0, 0, 0,
     0, 0, 0, 0, 0, 0, 0, 0, 0, 0, 0, 0, 0, 0, 0, 0, 0, 0, 0], [0, 0, 0, 0, 0, 0, 0, 0, 0,
     0, 0, 0, 0, 0, 0, 0, 0, 0, 0, 0, 0, 0, 0, 0, 0, 0, 0, 0, 0, 0, 0, 0, 0, 0, 0, 0, 0, 0],
     [0, 0, 0, 0, 0, 0, 0, 0, 0, 0, 0, 0, 0, 0, 0, 0, 0, 0, 0, 0, 0, 0, 0, 0, 0, 0, 0, 0, 0,
     0, 0, 0, 0, 0, 0, 0, 0, 0], [0, 0, 0, 0, 0, 0, 0, 0, 0, 0, 0, 0, 0, 0, 0, 0, 0, 0, 0,
     0, 0, 0, 0, 0, 0, 0, 0, 0, 0, 0, 0, 0, 0, 0, 0, 0, 0, 0]]"
  have len: "length (replicate 37 (1::int)) = 37"
    by simp
  have el: "elimination 3 37 [0 ..< 37] (augment hexagon_effects (replicate 37 1)) = Some M"
    unfolding M_def by (rule hexagon_elimination_ones_mod3)
  have inc: "\<not> inconsistent M"
    unfolding M_def by code_simp
  have bs: "back_steps 3 M (rev [0 ..< 37]) (replicate 37 0) =
     [0, 2, 2, 0, 1, 1, 2, 1, 1, 2, 0, 1, 1, 0, 2, 0, 1, 1, 1, 1, 1, 0, 1, 2, 1, 1, 2, 1, 0,
     1, 0, 1, 0, 0, 0, 0, 0]"
    unfolding M_def by code_simp
  show ?thesis
    by (rule gem_eval [of "replicate 37 1" hexagon_effects 3, unfolded hexagon_effects_length,
          OF len el inc bs])
qed

theorem expert_composite_contract_witness:
  "np_flatten (Flat (replicate 36 1 @ [0])) = Inr (replicate 36 1 @ [0])
   \<and> length (replicate 36 (1::int) @ [0]) = 37
   \<and> gaussian_elimination_mod hexagon_effects
        (map (\<lambda>v. v mod 2) (map (\<lambda>v. (1 - v) mod 6) (replicate 36 1 @ [0]))) 2 = Inr None
   \<and> solve (Flat (replicate 36 1 @ [0])) ''expert'' = Inr None
   \<and> np_flatten (Flat (replicate 37 0)) = Inr (replicate 37 0)
   \<and> length (replicate 37 (0::int)) = 37
   \<and> gaussian_elimination_mod hexagon_effects
        (map (\<lambda>v. v mod 2) (map (\<lambda>v. (1 - v) mod 6) (replicate 37 0))) 2 =
      Inr (Some
     [0, 1, 1, 0, 0, 0, 1, 0, 0, 0, 1, 0, 0, 1, 0, 0, 0, 0, 1, 0, 0, 0, 1,
      1, 0, 0, 1, 1, 1, 0, 1, 0, 1, 0, 0, 0, 0])
   \<and> gaussian_elimination_mod hexagon_effects
        (map (\<lambda>v. v mod 3) (map (\<lambda>v. (1 - v) mod 6) (replicate 37 0))) 3 =
      Inr (Some
     [0, 2, 2, 0, 1, 1, 2, 1, 1, 2, 0, 1, 1, 0, 2, 0, 1, 1, 1, 1, 1, 0, 1,
      2, 1, 1, 2, 1, 0, 1, 0, 1, 0, 0, 0, 0, 0])
   \<and> press_counts ''expert'' 37 6 hexagon_effects (map (\<lambda>v. (1 - v) mod 6) (replicate 37 0)) =
      Inr (Some
     [0, 5, 5, 0, 4, 4, 5, 4, 4, 2, 3, 4, 4, 3, 2, 0, 4, 4, 1, 4, 4, 0, 1,
      5, 4, 4, 5, 1, 3, 4, 3, 4, 3, 0, 0, 0, 0])"
proof -
  let ?flat = "replicate 36 (1::int) @ [0]"
  have f: "np_flatten (Flat ?flat) = Inr ?flat" by (simp add: np_flatten_def)
  have l: "length ?flat = 37" by simp
  have v: "map (\<lambda>v. v mod 2) (map (\<lambda>v. (1 - v) mod 6) ?flat) = replicate 36 0 @ [1]"
    by simp
  have g: "gaussian_elimination_mod hexagon_effects
             (map (\<lambda>v. v mod 2) (map (\<lambda>v. (1 - v) mod 6) ?flat)) 2 = Inr None"
    unfolding v by (rule gem_hexagon_unsolvable)
  from expert_composite_contract [OF f l refl] g
  have none: "solve (Flat ?flat) ''expert'' = Inr None"
    by (auto split: option.splits)
  let ?zero = "replicate 37 (0::int)"
  let ?b = "map (\<lambda>v. (1 - v) mod 6) ?zero"
  define x2 :: "int list" where "x2 =
     [0, 1, 1, 0, 0, 0, 1, 0, 0, 0, 1, 0, 0, 1, 0, 0, 0, 0, 1, 0, 0, 0, 1,
      1, 0, 0, 1, 1, 1, 0, 1, 0, 1, 0, 0, 0, 0]"
  define x3 :: "int list" where "x3 =
     [0, 2, 2, 0, 1, 1, 2, 1, 1, 2, 0, 1, 1, 0, 2, 0, 1, 1, 1, 1, 1, 0, 1,
      2, 1, 1, 2, 1, 0, 1, 0, 1, 0, 0, 0, 0, 0]"
  define xs :: "int list" where "xs =
     [0, 5, 5, 0, 4, 4, 5, 4, 4, 2, 3, 4, 4, 3, 2, 0, 4, 4, 1, 4, 4, 0, 1,
      5, 4, 4, 5, 1, 3, 4, 3, 4, 3, 0, 0, 0, 0]"
  have f0: "np_flatten (Flat ?zero) = Inr ?zero" by (simp add: np_flatten_def)
  have l0: "length ?zero = 37" by simp
  have v2: "map (\<lambda>v. v mod 2) ?b = replicate 37 1" by simp
  have v3: "map (\<lambda>v. v mod 3) ?b = replicate 37 1" by simp
  have g2: "gaussian_elimination_mod hexagon_effects (map (\<lambda>v. v mod 2) ?b) 2 = Inr (Some x2)"
    unfolding v2 x2_def by (rule gem_hexagon_ones_mod2)
  have g3: "gaussian_elimination_mod hexagon_effects (map (\<lambda>v. v mod 3) ?b) 3 = Inr (Some x3)"
    unfolding v3 x3_def by (rule gem_hexagon_ones_mod3)
  from expert_composite_contract [OF f0 l0 refl] g2 g3
  obtain x where x: "press_counts ''expert'' 37 6 hexagon_effects ?b = Inr (Some x)"
    "length x = 37"
    "\<forall>i<37. 0 \<le> x ! i \<and> x ! i \<le> 5 \<and> x ! i mod 2 = x2 ! i \<and> x ! i mod 3 = x3 ! i
            \<and> (\<forall>k. 0 \<le> k \<and> k \<le> 5 \<and> k mod 2 = x2 ! i \<and> k mod 3 = x3 ! i \<longrightarrow> k = x ! i)"
    by auto
  have "list_all (\<lambda>i. 0 \<le> xs ! i \<and> xs ! i \<le> 5 \<and> xs ! i mod 2 = x2 ! i \<and> xs ! i mod 3 = x3 ! i)
          [0 ..< 37]"
    unfolding xs_def x2_def x3_def by code_simp
  then have chk: "\<forall>i<37. 0 \<le> xs ! i \<and> xs ! i \<le> 5 \<and> xs ! i mod 2 = x2 ! i \<and> xs ! i mod 3 = x3 ! i"
    by (simp add: list_all_iff)
  have "xs = x"
  proof (rule nth_equalityI)
    show "length xs = length x" using x(2) by (simp add: xs_def)
    fix i assume "i < length xs"
    then have i: "i < 37" by (simp add: xs_def)
    with chk x(3) show "xs ! i = x ! i" by blast
  qed
  with x(1) have pc: "press_counts ''expert'' 37 6 hexagon_effects ?b = Inr (Some xs)" by simp
  from f l g none f0 l0 g2 g3 pc show ?thesis
    unfolding x2_def x3_def xs_def by blast
qed

section \<open>Pivots without an inverse\<close>

lemma mod_inverse_SomeD:
  assumes "mod_inverse a m = Some x"
  shows "(a * x) mod m = 1 mod m \<and> 0 \<le> x \<and> x < m"
proof -
  from assms have "x \<in> set [0 .. m - 1]" "(a * x) mod m = 1 mod m"
    by (auto simp: mod_inverse_def find_Some_iff)
  then show ?thesis by auto
qed

lemma mod_inverse_coprime:
  assumes "mod_inverse a m = Some x" "2 \<le> m"
  shows "coprime a m"
proof (rule coprimeI)
  fix c assume ca: "c dvd a" and cm: "c dvd m"
  from mod_inverse_SomeD [OF assms(1)] assms(2) have one: "(a * x) mod m = 1" by simp
  from ca have "c dvd a * x" by simp
  with cm have "c dvd (a * x) mod m" by (simp add: dvd_mod_iff)
  with one show "is_unit c" by simp
qed

lemma elimination_append:
  "elimination m n (xs @ ys) Ab =
     (case elimination m n xs Ab of None \<Rightarrow> None | Some M \<Rightarrow> elimination m n ys M)"
  by (induction xs arbitrary: Ab) (auto split: option.splits)

lemma fold_eliminate_row_length:
  "length (fold (\<lambda>j M. eliminate_row m i M j) js Ab) = length Ab"
  by (induction js arbitrary: Ab) (auto simp: eliminate_row_def)

lemma pivot_column_length:
  "pivot_column m n Ab i = Some Ab' \<Longrightarrow> length Ab' = length Ab"
  by (auto simp: pivot_column_def Let_def fold_eliminate_row_length
      split: if_splits option.splits)

lemma elimination_length:
  "elimination m n cols Ab = Some Ab' \<Longrightarrow> length Ab' = length Ab"
proof (induction cols arbitrary: Ab)
  case Nil
  then show ?case by simp
next
  case (Cons i cols)
  then show ?case
    by (auto split: option.splits dest!: pivot_column_length)
qed

lemma augment_length: "length b = length A \<Longrightarrow> length (augment A b) = length A"
  by (simp add: augment_def)

lemma swapped_pivot_row:
  assumes "i < length Ab"
  shows "Ab[i := Ab ! pr, pr := Ab ! i] ! i = Ab ! pr"
  using assms by (cases "pr = i") simp_all

lemma pivot_column_noninvertible:
  assumes "2 \<le> m" "i < length Ab" "pivot_scan Ab n i i \<noteq> n"
    and "\<not> coprime (Ab ! pivot_scan Ab n i i ! i) m"
  shows "pivot_column m n Ab i = None"
proof -
  let ?pr = "pivot_scan Ab n i i"
  have "mod_inverse (Ab[i := Ab ! ?pr, ?pr := Ab ! i] ! i ! i) m = None"
  proof (cases "mod_inverse (Ab ! ?pr ! i) m")
    case None
    then show ?thesis by (simp only: swapped_pivot_row [OF assms(2)])
  next
    case (Some x)
    from mod_inverse_coprime [OF this assms(1)] assms(4) show ?thesis by simp
  qed
  with assms(3) show ?thesis
    by (simp add: pivot_column_def Let_def)
qed

lemma gem_None_length:
  "gaussian_elimination_mod A b m = Inr r \<Longrightarrow> length b = length A"
  by (auto simp: gaussian_elimination_mod_def Let_def split: if_splits)

lemma solve_None_propagates:
  assumes cfg: "difficulty_config difficulty = Some (size_rc, n, modulus, lay)"
    and adj: "adj_map_of lay size_rc n = Inr adj_map"
    and A: "effects_matrix n adj_map = Inr A"
    and flat: "np_flatten initial_board = Inr initial_flat"
    and none: "(difficulty \<noteq> ''expert''
                \<and> gaussian_elimination_mod A (map (\<lambda>v. (1 - v) mod modulus) initial_flat) modulus
                    = Inr None)
             \<or> (difficulty = ''expert''
                \<and> (gaussian_elimination_mod A
                      (map (\<lambda>v. v mod 2) (map (\<lambda>v. (1 - v) mod modulus) initial_flat)) 2
                      = Inr None
                   \<or> gaussian_elimination_mod A
                       (map (\<lambda>v. v mod 3) (map (\<lambda>v. (1 - v) mod modulus) initial_flat)) 3
                       = Inr None))"
  shows "solve initial_board difficulty = Inr None"
proof -
  let ?b = "map (\<lambda>v. (1 - v) mod modulus) initial_flat"
  have "press_counts difficulty n modulus A ?b = Inr None"
  proof (cases "difficulty = ''expert''")
    case False
    with none show ?thesis by (simp add: press_counts_def)
  next
    case True
    with none have "length ?b = length A"
      by (auto dest: gem_None_length)
    then have l: "length (map (\<lambda>v. v mod 2) ?b) = length A"
      "length (map (\<lambda>v. v mod 3) ?b) = length A" by simp_all
    from gem_no_raise [OF l(1)] gem_no_raise [OF l(2)] obtain r2 r3 where
      "gaussian_elimination_mod A (map (\<lambda>v. v mod 2) ?b) 2 = Inr r2"
      "gaussian_elimination_mod A (map (\<lambda>v. v mod 3) ?b) 3 = Inr r3" by blast
    with none True show ?thesis
      by (auto simp: press_counts_def split: option.splits)
  qed
  with cfg adj A flat show ?thesis by (simp add: solve_def)
qed

lemma gem_pivot_failure:
  assumes m: "2 \<le> m" and len: "length b = length A"
    and reach: "elimination m (length A) [0 ..< i] (augment A b) = Some Ab"
    and i: "i < length A"
    and found: "pivot_scan Ab (length A) i i < length A"
    and bad: "\<not> coprime (Ab ! pivot_scan Ab (length A) i i ! i) m"
  shows "gaussian_elimination_mod A b m = Inr None"
proof -
  let ?n = "length A"
  from elimination_length [OF reach] augment_length [OF len] have lAb: "length Ab = ?n"
    by simp
  from found have "pivot_scan Ab ?n i i \<noteq> ?n" by simp
  from pivot_column_noninvertible [OF m _ this bad] i lAb
  have pc: "pivot_column m ?n Ab i = None" by simp
  from i have "[0 ..< ?n] = [0 ..< i] @ [i ..< ?n]"
    using upt_add_eq_append [of 0 i "?n - i"] by simp
  with i have "[0 ..< ?n] = [0 ..< i] @ i # [Suc i ..< ?n]"
    by (simp add: upt_conv_Cons)
  then have "elimination m ?n [0 ..< ?n] (augment A b) = None"
    using reach pc by (simp add: elimination_append)
  with len show ?thesis
    by (simp add: gaussian_elimination_mod_def)
qed

text \<open>
  C5. For every \<open>A\<close>, \<open>b\<close> and modulus \<open>m \<ge> 2\<close>: when the elimination has reached column
  \<open>i\<close>, the scan finds a pivot row there and the pivot value is not coprime with \<open>m\<close>,
  \<open>gaussian_elimination_mod\<close> returns \<open>None\<close>; it neither raises nor looks for another
  pivot. And whenever \<open>gaussian_elimination_mod\<close> returns \<open>None\<close> inside \<open>solve\<close> (for
  expert: one of the two sub-solves does), \<open>solve\<close> returns \<open>None\<close>.
\<close>

theorem noninvertible_pivot_is_failure:
  "(2 \<le> m \<and> length b = length A
      \<and> elimination m (length A) [0 ..< i] (augment A b) = Some Ab
      \<and> i < length A
      \<and> pivot_scan Ab (length A) i i < length A
      \<and> \<not> coprime (Ab ! pivot_scan Ab (length A) i i ! i) m
    \<longrightarrow> gaussian_elimination_mod A b m = Inr None)
   \<and> (difficulty_config difficulty = Some (size_rc, n, modulus, lay)
      \<and> adj_map_of lay size_rc n = Inr adj_map
      \<and> effects_matrix n adj_map = Inr A'
      \<and> np_flatten initial_board = Inr initial_flat
      \<and> ((difficulty \<noteq> ''expert''
           \<and> gaussian_elimination_mod A' (map (\<lambda>v. (1 - v) mod modulus) initial_flat) modulus
               = Inr None)
         \<or> (difficulty = ''expert''
           \<and> (gaussian_elimination_mod A'
                 (map (\<lambda>v. v mod 2) (map (\<lambda>v. (1 - v) mod modulus) initial_flat)) 2
                 = Inr None
              \<or> gaussian_elimination_mod A'
                  (map (\<lambda>v. v mod 3) (map (\<lambda>v. (1 - v) mod modulus) initial_flat)) 3
                  = Inr None)))
    \<longrightarrow> solve initial_board difficulty = Inr None)"
  using gem_pivot_failure [of m b A i Ab]
    solve_None_propagates [of difficulty size_rc n modulus lay adj_map A' initial_board
      initial_flat]
  by blast

theorem noninvertible_pivot_is_failure_witness:
  "(2::int) \<le> 4 \<and> length [1::int] = length [[2::int]]
   \<and> elimination 4 (length [[2::int]]) [0 ..< 0] (augment [[2]] [1]) = Some [[2, 1]]
   \<and> 0 < length [[2::int]]
   \<and> pivot_scan [[2, 1]] (length [[2::int]]) 0 0 < length [[2::int]]
   \<and> \<not> coprime ([[2, 1]] ! pivot_scan [[2, 1]] (length [[2::int]]) 0 0 ! 0) (4::int)
   \<and> gaussian_elimination_mod [[2]] [1] 4 = Inr None
   \<and> difficulty_config ''hard'' = Some (0, 37, 2, Hexagon)
   \<and> adj_map_of Hexagon 0 37 = Inr hexagon_adj_radius3
   \<and> effects_matrix 37 hexagon_adj_radius3 = Inr hexagon_effects
   \<and> np_flatten (Flat (replicate 36 1 @ [0])) = Inr (replicate 36 1 @ [0])
   \<and> gaussian_elimination_mod hexagon_effects
        (map (\<lambda>v. (1 - v) mod 2) (replicate 36 1 @ [0])) 2 = Inr None
   \<and> solve (Flat (replicate 36 1 @ [0])) ''hard'' = Inr None"
proof -
  have e: "elimination 4 (length [[2::int]]) [0 ..< 0] (augment [[2]] [1]) = Some [[2, 1]]"
    by (simp add: augment_def)
  have p: "pivot_scan [[2, 1]] (length [[2::int]]) 0 0 = 0"
    by (simp add: pivot_scan.simps)
  have c: "\<not> coprime ([[2, 1]] ! pivot_scan [[2, 1]] (length [[2::int]]) 0 0 ! 0) (4::int)"
    unfolding p by (simp add: coprime_iff_gcd_eq_1)
  have a: "adj_map_of Hexagon 0 37 = Inr hexagon_adj_radius3"
    by (simp add: adj_map_of_def hexagon_details_3)
  have f: "np_flatten (Flat (replicate 36 1 @ [0])) = Inr (replicate 36 1 @ [0])"
    by (simp add: np_flatten_def)
  have v: "map (\<lambda>v. (1 - v) mod 2) (replicate 36 (1::int) @ [0]) = replicate 36 0 @ [1]"
    by simp
  have g: "gaussian_elimination_mod hexagon_effects
             (map (\<lambda>v. (1 - v) mod 2) (replicate 36 1 @ [0])) 2 = Inr None"
    unfolding v by (rule gem_hexagon_unsolvable)
  from noninvertible_pivot_is_failure
    [of 4 "[1]" "[[2]]" 0 "[[2, 1]]" "''hard''" 0 37 2 Hexagon hexagon_adj_radius3
       hexagon_effects "Flat (replicate 36 1 @ [0])" "replicate 36 1 @ [0]"]
    e p c a f g difficulty_config_hard hexagon_effects_eq
  show ?thesis by simp
qed

section \<open>Entries stay in range during the elimination\<close>

lemma augmentedD:
  "augmented n M \<Longrightarrow> length M = n"
  "augmented n M \<Longrightarrow> r < n \<Longrightarrow> length (M ! r) = n + 1"
  by (auto simp: augmented_def list_all_length)

lemma augmentedI:
  "length M = n \<Longrightarrow> (\<And>r. r < n \<Longrightarrow> length (M ! r) = n + 1) \<Longrightarrow> augmented n M"
  by (auto simp: augmented_def list_all_length)

lemma in_rangeD:
  "in_range m M \<Longrightarrow> r < length M \<Longrightarrow> c < length (M ! r) \<Longrightarrow> 0 \<le> M ! r ! c \<and> M ! r ! c < m"
  by (auto simp: in_range_def list_all_length)

lemma in_rangeI:
  "(\<And>r c. r < length M \<Longrightarrow> c < length (M ! r) \<Longrightarrow> 0 \<le> M ! r ! c \<and> M ! r ! c < m)
   \<Longrightarrow> in_range m M"
  by (auto simp: in_range_def list_all_length)

lemma augmented_update:
  "augmented n M \<Longrightarrow> length row = n + 1 \<Longrightarrow> augmented n (M[j := row])"
  unfolding augmented_def list_all_iff
  using update_keeps [of M "\<lambda>row. length row = n + 1" row j] by simp

lemma in_range_update:
  "in_range m M \<Longrightarrow> list_all (\<lambda>v. 0 \<le> v \<and> v < m) row \<Longrightarrow> in_range m (M[j := row])"
  unfolding in_range_def list_all_iff [of _ M] list_all_iff [of _ "M[j := row]"]
  using update_keeps [of M "list_all (\<lambda>v. 0 \<le> v \<and> v < m)" row j] by simp

lemma in_range_row:
  "in_range m M \<Longrightarrow> r < length M \<Longrightarrow> list_all (\<lambda>v. 0 \<le> v \<and> v < m) (M ! r)"
  by (auto simp: in_range_def list_all_length)

lemma eliminate_row_augmented:
  assumes "augmented n M" "i < n" "j < n"
  shows "augmented n (eliminate_row m i M j)"
  using assms by (auto simp: eliminate_row_def augmentedD intro!: augmented_update)

lemma eliminate_row_in_range:
  assumes "0 < m" "in_range m M"
  shows "in_range m (eliminate_row m i M j)"
  using assms
  by (auto simp: eliminate_row_def list_all_length intro!: in_range_update)

lemma fold_eliminate_row_inv:
  assumes "0 < m" "i < n" "set js \<subseteq> {0 ..< n}"
  shows "augmented n M \<Longrightarrow> augmented n (fold (\<lambda>j M. eliminate_row m i M j) js M)"
    and "in_range m M \<Longrightarrow> in_range m (fold (\<lambda>j M. eliminate_row m i M j) js M)"
  using assms(3)
  by (induction js arbitrary: M)
     (auto simp: eliminate_row_augmented [OF _ assms(2)] eliminate_row_in_range [OF assms(1)])

lemma pivot_scan_le: "pivot_row \<le> n \<Longrightarrow> pivot_scan Ab n i pivot_row \<le> n"
  by (induction Ab n i pivot_row rule: pivot_scan.induct)
     (subst pivot_scan.simps, auto)

lemma pivot_scan_spec_eq:
  assumes "0 < m" "augmented n Ab" "in_range m Ab" "i < n"
  shows "pivot_scan_spec m Ab n i pivot_row = pivot_scan Ab n i pivot_row"
  using assms
proof (induction Ab n i pivot_row rule: pivot_scan.induct)
  case (1 Ab n i pivot_row)
  show ?case
  proof (cases "pivot_row < n")
    case False
    then show ?thesis
      by (subst pivot_scan_spec.simps, subst pivot_scan.simps) simp
  next
    case True
    with "1.prems" have "0 \<le> Ab ! pivot_row ! i \<and> Ab ! pivot_row ! i < m"
      by (intro in_rangeD) (simp_all add: augmentedD)
    then have z: "Ab ! pivot_row ! i mod m = 0 \<longleftrightarrow> Ab ! pivot_row ! i = 0"
      by simp
    show ?thesis
    proof (cases "Ab ! pivot_row ! i = 0")
      case False
      with z show ?thesis
        by (subst pivot_scan_spec.simps, subst pivot_scan.simps) simp
    next
      case zero: True
      from "1.IH" [OF _ "1.prems"] True zero
      have "pivot_scan_spec m Ab n i (pivot_row + 1) = pivot_scan Ab n i (pivot_row + 1)"
        by simp
      with True zero z show ?thesis
        by (subst pivot_scan_spec.simps, subst pivot_scan.simps) simp
    qed
  qed
qed

lemma pivot_column_inv:
  assumes m: "0 < m" and i: "i < n" and aug: "augmented n Ab"
    and step: "pivot_column m n Ab i = Some Ab'"
  shows "augmented n Ab'" and "in_range m Ab \<Longrightarrow> in_range m Ab'"
proof -
  let ?pr = "pivot_scan Ab n i i"
  let ?Ab1 = "Ab[i := Ab ! ?pr, ?pr := Ab ! i]"
  have le: "?pr \<le> n" using i by (intro pivot_scan_le) simp
  show "augmented n Ab'"
  proof (cases "?pr = n")
    case True
    with step aug show ?thesis by (simp add: pivot_column_def)
  next
    case False
    with le have pr: "?pr < n" by simp
    from step False obtain inv_m where
      Ab': "Ab' = fold (\<lambda>j M. eliminate_row m i M j) [0 ..< n]
                   (?Ab1[i := map (\<lambda>v. (v * inv_m) mod m) (?Ab1 ! i)])"
      by (auto simp: pivot_column_def Let_def split: option.splits)
    have a1: "augmented n ?Ab1"
      using aug pr i by (intro augmented_update) (simp_all add: augmentedD)
    have "augmented n (?Ab1[i := map (\<lambda>v. (v * inv_m) mod m) (?Ab1 ! i)])"
      using augmentedD(2) [OF a1 i] by (intro augmented_update [OF a1]) simp
    then show ?thesis
      unfolding Ab' using m i by (intro fold_eliminate_row_inv(1)) auto
  qed
  show "in_range m Ab'" if rng: "in_range m Ab"
  proof (cases "?pr = n")
    case True
    with step rng show ?thesis by (simp add: pivot_column_def)
  next
    case False
    with le have pr: "?pr < n" by simp
    from step False obtain inv_m where
      Ab': "Ab' = fold (\<lambda>j M. eliminate_row m i M j) [0 ..< n]
                   (?Ab1[i := map (\<lambda>v. (v * inv_m) mod m) (?Ab1 ! i)])"
      by (auto simp: pivot_column_def Let_def split: option.splits)
    have r1: "in_range m ?Ab1"
      using rng pr i aug
      by (intro in_range_update in_range_row) (simp_all add: augmentedD)
    have la: "list_all (\<lambda>v. 0 \<le> v \<and> v < m) (map (\<lambda>v. (v * inv_m) mod m) (?Ab1 ! i))"
      using m by (simp add: list_all_iff)
    have "in_range m (?Ab1[i := map (\<lambda>v. (v * inv_m) mod m) (?Ab1 ! i)])"
      by (rule in_range_update [OF r1 la])
    then show ?thesis
      unfolding Ab' using m i by (intro fold_eliminate_row_inv(2)) auto
  qed
qed

lemma elimination_inv_both:
  assumes m: "0 < m"
  shows "set cols \<subseteq> {0 ..< n} \<Longrightarrow> augmented n Ab \<Longrightarrow> elimination m n cols Ab = Some Ab'
         \<Longrightarrow> augmented n Ab' \<and> (in_range m Ab \<longrightarrow> in_range m Ab')"
proof (induction cols arbitrary: Ab)
  case Nil
  then show ?case by simp
next
  case (Cons i cols)
  from Cons.prems(3) obtain M where
    M: "pivot_column m n Ab i = Some M" "elimination m n cols M = Some Ab'"
    by (auto split: option.splits)
  from Cons.prems(1) have i: "i < n" and cols: "set cols \<subseteq> {0 ..< n}" by simp_all
  from pivot_column_inv [OF m i Cons.prems(2) M(1)]
  have aM: "augmented n M" and rM: "in_range m Ab \<Longrightarrow> in_range m M" by simp_all
  from Cons.IH [OF cols aM M(2)] rM show ?case by blast
qed

lemma elimination_inv:
  assumes "0 < m" "set cols \<subseteq> {0 ..< n}" "augmented n Ab" "elimination m n cols Ab = Some Ab'"
  shows "augmented n Ab'" and "in_range m Ab \<Longrightarrow> in_range m Ab'"
  using elimination_inv_both [OF assms] by simp_all

lemma pivot_column_spec_eq:
  assumes "0 < m" "augmented n Ab" "in_range m Ab" "i < n"
  shows "pivot_column_spec m n Ab i = pivot_column m n Ab i"
  by (simp add: pivot_column_spec_def pivot_column_def pivot_scan_spec_eq [OF assms])

lemma elimination_spec_eq:
  assumes m: "0 < m" and cols: "set cols \<subseteq> {0 ..< n}"
    and aug: "augmented n Ab" and rng: "in_range m Ab"
  shows "elimination_spec m n cols Ab = elimination m n cols Ab"
  using cols aug rng
proof (induction cols arbitrary: Ab)
  case Nil
  then show ?case by simp
next
  case (Cons i cols)
  from Cons.prems have i: "i < n" by simp
  have eq: "pivot_column_spec m n Ab i = pivot_column m n Ab i"
    using m Cons.prems(2,3) i by (rule pivot_column_spec_eq)
  show ?case
  proof (cases "pivot_column m n Ab i")
    case None
    with eq show ?thesis by simp
  next
    case (Some M)
    from pivot_column_inv [OF m i Cons.prems(2) Some] Cons.prems(3)
    have "augmented n M" "in_range m M" by simp_all
    from Cons.IH [OF _ this] Cons.prems(1) eq Some show ?thesis by simp
  qed
qed

lemma augment_augmented:
  assumes "square A" "length b = length A"
  shows "augmented (length A) (augment A b)"
  using assms
  by (auto simp: augmented_def square_def augment_def list_all_length)

lemma augment_in_range:
  assumes "in_range m A" "list_all (\<lambda>v. 0 \<le> v \<and> v < m) b"
  shows "in_range m (augment A b)"
  using assms
  by (auto simp: in_range_def augment_def list_all_iff dest!: set_zip_leftD set_zip_rightD
      elim!: in_set_zipE)

lemma in_range_reduce:
  assumes "in_range m M"
  shows "map (map (\<lambda>v. v mod m)) M = M"
  using assms by (auto simp: in_range_def list_all_iff intro!: map_idI)

section \<open>The code against the algorithm of the specification\<close>


text \<open>
  On inputs that are already reduced the missing reduction cannot show: for every square
  \<open>A\<close> and every \<open>b\<close> with entries in \<open>[0, m)\<close>, \<open>m \<ge> 2\<close> (what \<open>solve\<close> passes), the
  code returns what the algorithm of the specification returns.
\<close>

theorem solver_refines_spec_in_range:
  assumes m: "2 \<le> m" and sq: "square A" and rA: "in_range m A"
    and rb: "list_all (\<lambda>v. 0 \<le> v \<and> v < m) b"
  shows "gaussian_elimination_mod A b m = gaussian_elimination_mod_spec A b m
     \<and> gaussian_elimination_mod A b m
       = gaussian_elimination_mod (map (map (\<lambda>v. v mod m)) A) (map (\<lambda>v. v mod m) b) m"
proof -
  from m have m0: "0 < m" by simp
  have redA: "map (map (\<lambda>v. v mod m)) A = A"
    using rA by (rule in_range_reduce)
  have redb: "map (\<lambda>v. v mod m) b = b"
    using rb by (auto simp: list_all_iff intro!: map_idI)
  have "gaussian_elimination_mod A b m = gaussian_elimination_mod_spec A b m"
  proof (cases "length b = length A")
    case False
    then show ?thesis
      by (simp add: gaussian_elimination_mod_def gaussian_elimination_mod_spec_def)
  next
    case True
    from augment_augmented [OF sq True] have aug: "augmented (length A) (augment A b)" .
    from augment_in_range [OF rA rb] have rng: "in_range m (augment A b)" .
    have "elimination_spec m (length A) [0 ..< length A] (augment A b)
          = elimination m (length A) [0 ..< length A] (augment A b)"
      using m0 _ aug rng by (rule elimination_spec_eq) simp
    then show ?thesis
      unfolding gaussian_elimination_mod_def gaussian_elimination_mod_spec_def
        in_range_reduce [OF rng] Let_def
      by simp
  qed
  with redA redb show ?thesis by simp
qed

theorem solver_refines_spec_in_range_witness:
  "(2::int) \<le> 4 \<and> square [[1, 1], [1, 2]] \<and> in_range 4 [[1, 1], [1, 2]]
   \<and> list_all (\<lambda>v. 0 \<le> v \<and> v < 4) [2, 3 :: int]
   \<and> gaussian_elimination_mod [[1, 1], [1, 2]] [2, 3] 4 = Inr (Some [1, 1])
   \<and> gaussian_elimination_mod_spec [[1, 1], [1, 2]] [2, 3] 4 = Inr (Some [1, 1])"
proof -
  have s: "square [[1, 1], [1, 2]]" by (simp add: square_def)
  have r: "in_range 4 [[1, 1], [1, 2]]" by (simp add: in_range_def)
  have b: "list_all (\<lambda>v. 0 \<le> v \<and> v < 4) [2, 3 :: int]" by simp
  have g: "gaussian_elimination_mod [[1, 1], [1, 2]] [2, 3] 4 = Inr (Some [1, 1])"
    by code_simp
  from solver_refines_spec_in_range [OF _ s r b] g s r b show ?thesis by simp
qed

section \<open>The hexagon builder for every radius\<close>

lemma sequence_err_map:
  "(\<And>x. x \<in> set xs \<Longrightarrow> f x = Inr (h x)) \<Longrightarrow> sequence_err (map f xs) = Inr (map h xs)"
  by (induction xs) auto

lemma dict_get_None_iff: "dict_get d k = None \<longleftrightarrow> k \<notin> fst ` set d"
  by (simp add: dict_get_def map_of_eq_None_iff)

lemma dict_get_SomeD: "dict_get d k = Some v \<Longrightarrow> (k, v) \<in> set d"
  using map_of_SomeD [of "rev d" k v] by (simp add: dict_get_def)

lemma dict_get_keyed:
  "dict_get (map (\<lambda>k. (k, h k)) ks) k = (if k \<in> set ks then Some (h k) else None)"
proof (cases "dict_get (map (\<lambda>k. (k, h k)) ks) k")
  case None
  then have "k \<notin> set ks" by (force simp: dict_get_None_iff image_iff)
  with None show ?thesis by simp
next
  case (Some v)
  from dict_get_SomeD [OF this] have "k \<in> set ks" "v = h k" by auto
  with Some show ?thesis by simp
qed

lemma dict_get_valued:
  assumes inj: "\<And>a a'. g a = g a' \<Longrightarrow> a = a'"
  shows "dict_get (map (\<lambda>a. (g a, a)) ks) (g a) = (if a \<in> set ks then Some a else None)"
proof (cases "dict_get (map (\<lambda>a. (g a, a)) ks) (g a)")
  case None
  then have "a \<notin> set ks" by (force simp: dict_get_None_iff image_iff)
  with None show ?thesis by simp
next
  case (Some v)
  from dict_get_SomeD [OF this] have "v \<in> set ks" "g v = g a" by auto
  with inj [of v a] Some show ?thesis by simp
qed

lemma norm_offset_alt:
  "norm_offset radius (q, r) = (r + q div 2 - min_r radius, q - min_c radius)"
  by (simp add: norm_offset_def axial_to_offset_def and_one_floor)

lemma norm_offset_inj: "norm_offset radius a = norm_offset radius a' \<Longrightarrow> a = a'"
  by (cases a, cases a') (auto simp: norm_offset_alt)

lemma set_valid_cells: "set (valid_cells radius) = norm_offset radius ` set (axial_coords radius)"
  by (force simp: valid_cells_def offset_coords_unnormalized_def norm_offset_def image_iff
      split_beta)

lemma distinct_valid_cells: "distinct (valid_cells radius)"
  by (simp add: valid_cells_def)

lemma map_filter_if:
  "List.map_filter (\<lambda>x. if P (t x) then Some (g (t x)) else None) xs
   = map g (filter P (map t xs))"
  by (induction xs) (simp_all add: map_filter_simps)

lemma offset_to_axial_lookup:
  "dict_get (offset_to_axial_map radius) (norm_offset radius a)
   = (if a \<in> set (axial_coords radius) then Some a else None)"
  unfolding offset_to_axial_map_def
  by (rule dict_get_valued) (rule norm_offset_inj)

lemma axial_to_offset_lookup:
  "dict_get (axial_to_offset_map radius) a
   = (if a \<in> set (axial_coords radius) then Some (norm_offset radius a) else None)"
  unfolding axial_to_offset_map_def by (rule dict_get_keyed)

lemma cell_neighbours_char:
  assumes "a \<in> set (axial_coords radius)"
  shows "cell_neighbours radius (norm_offset radius a)
         = map (norm_offset radius) (axial_neighbourhood radius a)"
proof -
  have "List.map_filter
          (\<lambda>(dq, dr). dict_get (axial_to_offset_map radius) (fst a + dq, snd a + dr))
          axial_directions
        = List.map_filter
            (\<lambda>d. if (\<lambda>(dq, dr). (fst a + dq, snd a + dr)) d \<in> set (axial_coords radius)
                 then Some (norm_offset radius ((\<lambda>(dq, dr). (fst a + dq, snd a + dr)) d))
                 else None)
            axial_directions"
    by (rule arg_cong [where f = "\<lambda>f. List.map_filter f axial_directions"])
       (auto simp: axial_to_offset_lookup fun_eq_iff)
  also have "\<dots> = map (norm_offset radius)
                     (filter (\<lambda>a'. a' \<in> set (axial_coords radius))
                        (map (\<lambda>(dq, dr). (fst a + dq, snd a + dr)) axial_directions))"
    by (rule map_filter_if)
  finally show ?thesis
    using assms
    by (simp add: cell_neighbours_def offset_to_axial_lookup axial_neighbourhood_def)
qed

lemma cell_neighbours_valid:
  assumes "c \<in> set (valid_cells radius)"
  shows "set (cell_neighbours radius c) \<subseteq> set (valid_cells radius)"
proof -
  from assms obtain a where a: "a \<in> set (axial_coords radius)" "c = norm_offset radius a"
    by (auto simp: set_valid_cells)
  show ?thesis
    unfolding a(2) cell_neighbours_char [OF a(1)] set_valid_cells
    using a(1) by (auto simp: axial_neighbourhood_def)
qed

lemma cell_adjacency_char:
  assumes "c \<in> set (valid_cells radius)"
  shows "cell_adjacency radius c = Inr (c, cell_neighbours radius c)"
proof -
  from assms obtain a where a: "a \<in> set (axial_coords radius)" "c = norm_offset radius a"
    by (auto simp: set_valid_cells)
  then show ?thesis
    by (simp add: cell_adjacency_def cell_neighbours_def dict_index_def offset_to_axial_lookup)
qed

lemma adjacency_map_by_coord_char:
  "adjacency_map_by_coord radius
   = Inr (map (\<lambda>c. (c, cell_neighbours radius c)) (valid_cells radius))"
  unfolding adjacency_map_by_coord_def
  by (rule sequence_err_map) (rule cell_adjacency_char)

lemma sorted_coords_props:
  "set (sorted_coords radius) = set (valid_cells radius)"
  "distinct (sorted_coords radius)"
  "length (sorted_coords radius) = length (valid_cells radius)"
  by (simp_all add: sorted_coords_def distinct_valid_cells)

lemma zip_upt_lookup:
  assumes "c \<in> set xs"
  shows "\<exists>k. dict_get (zip xs [0 ..< length xs]) c = Some k \<and> k < length xs \<and> xs ! k = c"
proof -
  let ?d = "zip xs [0 ..< length xs]"
  have "set (map fst ?d) = set xs" by (simp add: map_fst_zip)
  then have "fst ` set ?d = set xs" by (simp only: set_map)
  with assms have "c \<in> fst ` set ?d" by blast
  then have "dict_get ?d c \<noteq> None"
    by (simp only: dict_get_None_iff not_not)
  then obtain k where k: "dict_get ?d c = Some k" by blast
  from dict_get_SomeD [OF k] have "(c, k) \<in> set ?d" .
  then obtain i where i: "i < length ?d" "?d ! i = (c, k)"
    by (metis in_set_conv_nth)
  from i(1) have il: "i < length xs" by simp
  from i(2) il have "(xs ! i, i) = (c, k)" by auto
  then have xi: "xs ! i = c" and ik: "i = k" by blast+
  from il have "k < length xs" by (simp only: ik)
  moreover from xi have "xs ! k = c" by (simp only: ik)
  ultimately show ?thesis using k by blast
qed

lemma cell_index_props:
  assumes "c \<in> set (valid_cells radius)"
  shows "dict_get (coord_to_index radius) c = Some (cell_index radius c)"
    and "cell_index radius c < length (valid_cells radius)"
    and "sorted_coords radius ! cell_index radius c = c"
proof -
  from assms have "c \<in> set (sorted_coords radius)"
    by (simp only: sorted_coords_props)
  from zip_upt_lookup [OF this] obtain k where
    k: "dict_get (coord_to_index radius) c = Some k" "k < length (sorted_coords radius)"
       "sorted_coords radius ! k = c"
    unfolding coord_to_index_def by blast
  from k(1) have ci: "cell_index radius c = k"
    by (simp only: cell_index_def option.case)
  show "dict_get (coord_to_index radius) c = Some (cell_index radius c)"
    unfolding ci by (rule k(1))
  show "cell_index radius c < length (valid_cells radius)"
    unfolding ci using k(2) by (simp only: sorted_coords_props)
  show "sorted_coords radius ! cell_index radius c = c"
    unfolding ci by (rule k(3))
qed

lemma cell_index_inj:
  assumes "c \<in> set (valid_cells radius)" "c' \<in> set (valid_cells radius)"
    and "cell_index radius c = cell_index radius c'"
  shows "c = c'"
proof -
  have "c = sorted_coords radius ! cell_index radius c"
    by (rule sym) (rule cell_index_props(3) [OF assms(1)])
  also have "\<dots> = sorted_coords radius ! cell_index radius c'"
    by (simp only: assms(3))
  also have "\<dots> = c'"
    by (rule cell_index_props(3) [OF assms(2)])
  finally show ?thesis .
qed

lemma adj_entry_char:
  assumes "c \<in> set (valid_cells radius)"
  shows "adj_entry radius (c, cell_neighbours radius c)
         = Inr (cell_index radius c, sort (map (cell_index radius) (cell_neighbours radius c)))"
proof -
  have "sequence_err (map (dict_index (coord_to_index radius)) (cell_neighbours radius c))
        = Inr (map (cell_index radius) (cell_neighbours radius c))"
  proof (rule sequence_err_map)
    fix x assume "x \<in> set (cell_neighbours radius c)"
    with cell_neighbours_valid [OF assms] have "x \<in> set (valid_cells radius)" by blast
    from cell_index_props(1) [OF this]
    show "dict_index (coord_to_index radius) x = Inr (cell_index radius x)"
      by (simp add: dict_index_def)
  qed
  with cell_index_props(1) [OF assms] show ?thesis
    by (simp add: adj_entry_def dict_index_def)
qed

lemma hexagon_details_char:
  "get_hexagon_board_details radius
   = Inr (map (\<lambda>c. (cell_index radius c,
                     sort (map (cell_index radius) (cell_neighbours radius c))))
              (valid_cells radius))"
proof (cases "offset_coords_unnormalized radius = []")
  case True
  then show ?thesis
    by (simp add: get_hexagon_board_details_def valid_cells_def)
next
  case False
  have "sequence_err (map (adj_entry radius)
          (map (\<lambda>c. (c, cell_neighbours radius c)) (valid_cells radius)))
        = Inr (map (\<lambda>c. (cell_index radius c,
                          sort (map (cell_index radius) (cell_neighbours radius c))))
                   (valid_cells radius))"
    unfolding map_map
    by (rule sequence_err_map) (simp add: adj_entry_char)
  with False show ?thesis
    by (simp add: get_hexagon_board_details_def adjacency_map_by_coord_char)
qed

section \<open>Adjacency lists are strictly increasing and in range\<close>

lemma distinct_axial_neighbourhood: "distinct (axial_neighbourhood radius a)"
proof -
  have "distinct (a # map (\<lambda>(dq, dr). (fst a + dq, snd a + dr)) axial_directions)"
    by (cases a) (simp add: axial_directions_def)
  then show ?thesis
    by (auto simp: axial_neighbourhood_def)
qed

lemma distinct_cell_neighbours:
  assumes "c \<in> set (valid_cells radius)"
  shows "distinct (cell_neighbours radius c)"
proof -
  from assms obtain a where a: "a \<in> set (axial_coords radius)" "c = norm_offset radius a"
    by (auto simp: set_valid_cells)
  have "inj_on (norm_offset radius) (set (axial_neighbourhood radius a))"
    by (rule inj_onI) (rule norm_offset_inj)
  then show ?thesis
    unfolding a(2) cell_neighbours_char [OF a(1)]
    by (simp add: distinct_map distinct_axial_neighbourhood)
qed

lemma cell_index_inj_on: "inj_on (cell_index radius) (set (valid_cells radius))"
  by (rule inj_onI) (rule cell_index_inj)

lemma affected_list_strict:
  assumes "c \<in> set (valid_cells radius)"
  shows "sorted_wrt (<) (sort (map (cell_index radius) (cell_neighbours radius c)))"
    and "\<forall>j\<in>set (sort (map (cell_index radius) (cell_neighbours radius c))).
           j < length (valid_cells radius)"
proof -
  have "inj_on (cell_index radius) (set (cell_neighbours radius c))"
    using cell_index_inj_on cell_neighbours_valid [OF assms] by (rule inj_on_subset)
  then have "distinct (map (cell_index radius) (cell_neighbours radius c))"
    by (simp add: distinct_map distinct_cell_neighbours [OF assms])
  then show "sorted_wrt (<) (sort (map (cell_index radius) (cell_neighbours radius c)))"
    by (simp add: strict_sorted_iff)
  show "\<forall>j\<in>set (sort (map (cell_index radius) (cell_neighbours radius c))).
           j < length (valid_cells radius)"
    using cell_neighbours_valid [OF assms] cell_index_props(2) by auto
qed

lemma grid_adj_entry:
  assumes "(k, ns) \<in> set (grid_adj_map size_rc n)"
  shows "sorted_wrt (<) ns \<and> (\<forall>j\<in>set ns. j < n)"
proof -
  from assms obtain P where "ns = filter P [0 ..< n]"
    by (auto simp: grid_adj_map_def)
  then show ?thesis
    by (auto intro: sorted_wrt_filter)
qed

text \<open>
  C10. For every radius the hexagon builder returns a map (it never raises) in which
  every entry is a strictly increasing list, equal to its own sorting, of indices below
  the number of tiles; and for every size the entries of the grid map are strictly
  increasing lists of indices below \<open>size * size\<close>.
\<close>

theorem adjacency_lists_well_formed:
  "(\<exists>adj_map. get_hexagon_board_details radius = Inr adj_map
      \<and> (\<forall>k ns. (k, ns) \<in> set adj_map \<longrightarrow>
            sorted_wrt (<) ns \<and> ns = sort ns \<and> (\<forall>j\<in>set ns. j < length adj_map)))
   \<and> (\<forall>k ns. (k, ns) \<in> set (grid_adj_map size_rc (size_rc * size_rc)) \<longrightarrow>
          sorted_wrt (<) ns \<and> (\<forall>j\<in>set ns. j < size_rc * size_rc))"
proof (intro conjI exI allI impI)
  show "get_hexagon_board_details radius
        = Inr (map (\<lambda>c. (cell_index radius c,
                          sort (map (cell_index radius) (cell_neighbours radius c))))
                   (valid_cells radius))"
    by (rule hexagon_details_char)
next
  fix k ns
  assume "(k, ns) \<in> set (map (\<lambda>c. (cell_index radius c,
                          sort (map (cell_index radius) (cell_neighbours radius c))))
                   (valid_cells radius))"
  then obtain c where c: "c \<in> set (valid_cells radius)"
    "ns = sort (map (cell_index radius) (cell_neighbours radius c))" by auto
  from affected_list_strict [OF c(1)] c(2)
  show "sorted_wrt (<) ns" "\<forall>j\<in>set ns.
          j < length (map (\<lambda>c. (cell_index radius c,
                          sort (map (cell_index radius) (cell_neighbours radius c))))
                   (valid_cells radius))"
    by simp_all
  from c(2) show "ns = sort ns"
    by (simp add: sorted_sort_id)
next
  fix k ns
  assume "(k, ns) \<in> set (grid_adj_map size_rc (size_rc * size_rc))"
  from grid_adj_entry [OF this]
  show "sorted_wrt (<) ns" "\<forall>j\<in>set ns. j < size_rc * size_rc" by simp_all
qed

theorem adjacency_lists_well_formed_witness:
  "get_hexagon_board_details 3 = Inr hexagon_adj_radius3
   \<and> (21, [14, 20, 21, 27]) \<in> set hexagon_adj_radius3
   \<and> sorted_wrt (<) [14, 20, 21, 27 :: nat]
   \<and> list_all (\<lambda>j. j < length hexagon_adj_radius3) [14, 20, 21, 27]
   \<and> (0, [0, 1, 3, 4]) \<in> set (grid_adj_map 3 (3 * 3))
   \<and> sorted_wrt (<) [0, 1, 3, 4 :: nat]
   \<and> list_all (\<lambda>j. j < 3 * 3) [0, 1, 3, 4 :: nat]"
proof -
  have m1: "(21, [14, 20, 21, 27]) \<in> set hexagon_adj_radius3"
    by code_simp
  have m2: "(0, [0, 1, 3, 4]) \<in> set (grid_adj_map 3 (3 * 3))"
    by code_simp
  from adjacency_lists_well_formed [of 3 3] hexagon_details_3
  have h: "\<forall>k ns. (k, ns) \<in> set hexagon_adj_radius3 \<longrightarrow>
             sorted_wrt (<) ns \<and> ns = sort ns \<and> (\<forall>j\<in>set ns. j < length hexagon_adj_radius3)"
    and g: "\<forall>k ns. (k, ns) \<in> set (grid_adj_map 3 (3 * 3)) \<longrightarrow>
             sorted_wrt (<) ns \<and> (\<forall>j\<in>set ns. j < 3 * 3)"
    by auto
  from h m1 have "sorted_wrt (<) [14, 20, 21, 27 :: nat]"
    "list_all (\<lambda>j. j < length hexagon_adj_radius3) [14, 20, 21, 27]"
    unfolding list_all_iff by blast+
  moreover from g m2 have "sorted_wrt (<) [0, 1, 3, 4 :: nat]"
    "list_all (\<lambda>j. j < 3 * 3) [0, 1, 3, 4 :: nat]"
    unfolding list_all_iff by blast+
  ultimately show ?thesis
    using m1 m2 hexagon_details_3 by blast
qed

section \<open>The hexagon adjacency is symmetric\<close>

lemma near_sym: "near a a' \<longleftrightarrow> near a' a"
proof -
  obtain q r q' r' where a: "a = (q, r)" "a' = (q', r')" by (cases a, cases a')
  show ?thesis
    unfolding a near_def axial_directions_def
    by (simp add: eq_commute [of q q'] eq_commute [of r r']) presburger
qed

lemma shifted_mem:
  fixes q r :: int
  shows "(q', r') \<in> (\<lambda>(dq, dr). (q + dq, r + dr)) ` D \<longleftrightarrow> (q' - q, r' - r) \<in> D"
proof
  assume "(q', r') \<in> (\<lambda>(dq, dr). (q + dq, r + dr)) ` D"
  then obtain dq dr where d: "(dq, dr) \<in> D" "q' = q + dq" "r' = r + dr" by auto
  from d(2,3) have "(q' - q, r' - r) = (dq, dr)" by simp
  with d(1) show "(q' - q, r' - r) \<in> D" by (simp only:)
next
  assume m: "(q' - q, r' - r) \<in> D"
  have "(q', r') = (\<lambda>(dq, dr). (q + dq, r + dr)) (q' - q, r' - r)" by simp
  with m show "(q', r') \<in> (\<lambda>(dq, dr). (q + dq, r + dr)) ` D" by (rule image_eqI [rotated])
qed

lemma axial_neighbourhood_iff:
  assumes "a \<in> set (axial_coords radius)"
  shows "a' \<in> set (axial_neighbourhood radius a)
         \<longleftrightarrow> a' \<in> set (axial_coords radius) \<and> near a a'"
proof -
  obtain q r q' r' where a: "a = (q, r)" "a' = (q', r')" by (cases a, cases a')
  have "a' \<in> set (axial_neighbourhood radius a)
        \<longleftrightarrow> a' = a \<or> (a' \<in> set (axial_coords radius)
                       \<and> a' \<in> (\<lambda>(dq, dr). (fst a + dq, snd a + dr)) ` set axial_directions)"
    by (simp add: axial_neighbourhood_def) blast
  also have "\<dots> \<longleftrightarrow> a' = a \<or> (a' \<in> set (axial_coords radius)
                       \<and> (fst a' - fst a, snd a' - snd a) \<in> set axial_directions)"
    unfolding a fst_conv snd_conv shifted_mem ..
  also have "\<dots> \<longleftrightarrow> a' \<in> set (axial_coords radius) \<and> near a a'"
    using assms unfolding near_def by blast
  finally show ?thesis .
qed

lemma hexagon_lookup:
  assumes "c \<in> set (valid_cells radius)"
    and "get_hexagon_board_details radius = Inr adj_map"
  shows "dict_get adj_map (cell_index radius c)
         = Some (sort (map (cell_index radius) (cell_neighbours radius c)))"
proof -
  let ?e = "\<lambda>c. (cell_index radius c, sort (map (cell_index radius) (cell_neighbours radius c)))"
  from assms(2) have adj: "adj_map = map ?e (valid_cells radius)"
    by (simp add: hexagon_details_char)
  have "map fst (rev adj_map) = rev (map (cell_index radius) (valid_cells radius))"
    by (simp add: adj rev_map)
  then have d: "distinct (map fst (rev adj_map))"
    by (simp add: distinct_map distinct_valid_cells cell_index_inj_on)
  from assms(1) have "?e c \<in> set (rev adj_map)"
    by (simp add: adj)
  with d have "map_of (rev adj_map) (cell_index radius c)
               = Some (sort (map (cell_index radius) (cell_neighbours radius c)))"
    by (intro map_of_is_SomeI)
  then show ?thesis by (simp add: dict_get_def)
qed

lemma hexagon_lookup_SomeD:
  assumes "dict_get adj_map i = Some ns"
    and "get_hexagon_board_details radius = Inr adj_map"
  shows "\<exists>c\<in>set (valid_cells radius).
           i = cell_index radius c
           \<and> ns = sort (map (cell_index radius) (cell_neighbours radius c))"
proof -
  from assms(2) have
    "adj_map = map (\<lambda>c. (cell_index radius c,
                          sort (map (cell_index radius) (cell_neighbours radius c))))
                   (valid_cells radius)"
    by (simp add: hexagon_details_char)
  with dict_get_SomeD [OF assms(1)] show ?thesis by auto
qed

lemma affected_of_iff:
  assumes "get_hexagon_board_details radius = Inr adj_map"
  shows "j \<in> set (affected_of adj_map i)
         \<longleftrightarrow> (\<exists>a a'. a \<in> set (axial_coords radius) \<and> a' \<in> set (axial_coords radius)
                       \<and> near a a'
                       \<and> i = cell_index radius (norm_offset radius a)
                       \<and> j = cell_index radius (norm_offset radius a'))"
    (is "?L \<longleftrightarrow> ?R")
proof
  assume ?L
  then obtain ns where ns: "dict_get adj_map i = Some ns" "j \<in> set ns"
    by (cases "dict_get adj_map i") (auto simp: affected_of_def)
  from hexagon_lookup_SomeD [OF ns(1) assms] obtain c where
    c: "c \<in> set (valid_cells radius)" "i = cell_index radius c"
       "ns = sort (map (cell_index radius) (cell_neighbours radius c))" by blast
  from c(1) obtain a where a: "a \<in> set (axial_coords radius)" "c = norm_offset radius a"
    by (auto simp: set_valid_cells)
  from ns(2) c(3) obtain a' where
    a': "a' \<in> set (axial_neighbourhood radius a)" "j = cell_index radius (norm_offset radius a')"
    unfolding a(2) cell_neighbours_char [OF a(1)] by auto
  from a'(1) axial_neighbourhood_iff [OF a(1)]
  have "a' \<in> set (axial_coords radius)" "near a a'" by blast+
  with a a'(2) c(2) show ?R by blast
next
  assume ?R
  then obtain a a' where
    r: "a \<in> set (axial_coords radius)" "a' \<in> set (axial_coords radius)" "near a a'"
       "i = cell_index radius (norm_offset radius a)"
       "j = cell_index radius (norm_offset radius a')" by blast
  from r(1) have c: "norm_offset radius a \<in> set (valid_cells radius)"
    by (simp add: set_valid_cells)
  from r(2,3) axial_neighbourhood_iff [OF r(1)]
  have "a' \<in> set (axial_neighbourhood radius a)" by blast
  then have "j \<in> set (sort (map (cell_index radius)
                               (cell_neighbours radius (norm_offset radius a))))"
    unfolding cell_neighbours_char [OF r(1)] r(5) by simp
  with hexagon_lookup [OF c assms] r(4) show ?L
    by (simp add: affected_of_def)
qed

text \<open>
  C6. For every radius the builder returns a map (it never raises) whose relation is
  symmetric: for all tile indices \<open>i\<close> and \<open>j\<close>, \<open>j\<close> is in the list of \<open>i\<close> exactly when
  \<open>i\<close> is in the list of \<open>j\<close>; an index that is no key has the empty list, as
  \<open>adj_map.get(i, [])\<close> gives it.
\<close>

theorem hexagon_adjacency_symmetric:
  "\<exists>adj_map. get_hexagon_board_details radius = Inr adj_map
     \<and> (\<forall>i j. j \<in> set (affected_of adj_map i) \<longleftrightarrow> i \<in> set (affected_of adj_map j))"
proof -
  obtain adj_map where adj: "get_hexagon_board_details radius = Inr adj_map"
    using hexagon_details_char by blast
  have "j \<in> set (affected_of adj_map i) \<longleftrightarrow> i \<in> set (affected_of adj_map j)" for i j
    unfolding affected_of_iff [OF adj] using near_sym by blast
  with adj show ?thesis by blast
qed

section \<open>Row operations keep the solutions\<close>

lemma dotp_Nil [simp]: "dotp [] ys = 0" "dotp xs [] = 0"
  by (simp_all add: dotp_def)

lemma dotp_Cons [simp]: "dotp (a # xs) (b # ys) = a * b + dotp xs ys"
  by (simp add: dotp_def)

lemma dotp_scale:
  "dotp (map (\<lambda>v. (v * k) mod m) r) y mod m = (k * dotp r y) mod m"
proof (induction r arbitrary: y)
  case Nil
  then show ?case by simp
next
  case (Cons a r)
  show ?case
  proof (cases y)
    case Nil
    then show ?thesis by simp
  next
    case (Cons b ys)
    have "(a * k mod m * b + dotp (map (\<lambda>v. (v * k) mod m) r) ys) mod m
          = (a * k * b + k * dotp r ys) mod m"
      by (rule mod_add_cong) (simp_all add: mod_mult_left_eq Cons.IH)
    then show ?thesis
      by (simp add: Cons algebra_simps)
  qed
qed

lemma dotp_eliminate:
  "length r = length s \<Longrightarrow>
   dotp (map2 (\<lambda>a p. (a - c * p) mod m) r s) y mod m = (dotp r y - c * dotp s y) mod m"
proof (induction r s arbitrary: y rule: list_induct2)
  case Nil
  then show ?case by simp
next
  case (Cons a r p s)
  show ?case
  proof (cases y)
    case Nil
    then show ?thesis by simp
  next
    case (Cons b ys)
    have "((a - c * p) mod m * b + dotp (map2 (\<lambda>a p. (a - c * p) mod m) r s) ys) mod m
          = ((a - c * p) * b + (dotp r ys - c * dotp s ys)) mod m"
      by (rule mod_add_cong) (simp_all add: mod_mult_left_eq Cons.IH)
    then show ?thesis
      by (simp add: Cons algebra_simps)
  qed
qed

lemma solves_nth:
  "solves m x M \<longleftrightarrow> (\<forall>r<length M. dotp (M ! r) (x @ [- 1]) mod m = 0)"
  by (simp add: solves_def list_all_length)

end
